theory Spec2Isabelle
  imports Complex_Main "HOL-Library.Sublist" "HOL-Library.Log_Nat"
begin

section \<open>JavaScript values and primitives\<close>

text \<open>
  The repository holds two implementations of the same site audit: the library
  \<^verbatim>\<open>analyzeSite\<close> (file \<^verbatim>\<open>lib/cucituraCheck\<close>, here \<^verbatim>\<open>unnamed/part_000\<close>) and the
  self-contained handler \<^verbatim>\<open>POST\<close> of \<^verbatim>\<open>src/app/api/analyze/route.ts\<close>. Both are embedded
  below; where the two files use one name for different functions, the functions of
  \<^verbatim>\<open>route.ts\<close> carry the suffix \<^verbatim>\<open>_route\<close>.

  Conventions of the embedding:
  \<^item> a JavaScript string is a \<^typ>\<open>string\<close>; case conversion and whitespace are those of
    ASCII (the keyword tables of the source are ASCII);
  \<^item> a JavaScript number that is the result of \<^verbatim>\<open>Math.round\<close>, of integer arithmetic on
    such results, or a counter is an \<^typ>\<open>int\<close> or \<^typ>\<open>nat\<close>; any other number is a
    \<^typ>\<open>rat\<close>, and an arithmetic operation on such numbers rounds its exact result to the
    nearest double (see below);
  \<^item> \<^verbatim>\<open>undefined\<close>/\<^verbatim>\<open>null\<close> is \<^term>\<open>None\<close>; a thrown exception is the \<^term>\<open>Inl\<close> side of a sum;
  \<^item> the outside world (the URL parser of the runtime, \<^verbatim>\<open>fetch\<close>, the HTML parser
    \<^verbatim>\<open>cheerio\<close>, the regular-expression scans over markup, the environment variable) is
    a parameter of the functions that use it.
\<close>

definition toLowerChar :: "char \<Rightarrow> char" where
  "toLowerChar c =
     (case map_of (zip ''ABCDEFGHIJKLMNOPQRSTUVWXYZ'' ''abcdefghijklmnopqrstuvwxyz'') c of
        Some l \<Rightarrow> l
      | None \<Rightarrow> c)"

definition toLowerCase :: "string \<Rightarrow> string" where
  "toLowerCase s = map toLowerChar s"

definition isSpace :: "char \<Rightarrow> bool" where
  "isSpace c = (c \<in> set [CHR 0x20, CHR 0x09, CHR 0x0A, CHR 0x0B, CHR 0x0C, CHR 0x0D])"

text \<open>
  \<^verbatim>\<open>String.prototype.trim\<close> on ASCII text. On other text it also strips the white space
  outside ASCII (U+00A0, U+FEFF, U+2028 and others), which a \<^typ>\<open>string\<close> of the embedding
  does not represent.
\<close>

definition trim :: "string \<Rightarrow> string" where
  "trim s = rev (dropWhile isSpace (rev (dropWhile isSpace s)))"

text \<open>\<^verbatim>\<open>hay.includes(needle)\<close>: \<^verbatim>\<open>needle\<close> occurs in \<^verbatim>\<open>hay\<close> as a contiguous block.\<close>

fun str_includes :: "string \<Rightarrow> string \<Rightarrow> bool" where
  "str_includes [] needle = (needle = [])"
| "str_includes (c # cs) needle = (prefix needle (c # cs) \<or> str_includes cs needle)"

text \<open>\<^verbatim>\<open>x || ""\<close> for an optional string.\<close>

definition orEmpty :: "string option \<Rightarrow> string" where
  "orEmpty x = (case x of None \<Rightarrow> [] | Some s \<Rightarrow> s)"

subsection \<open>Numbers\<close>

text \<open>
  A JavaScript number is an IEEE 754 double, and every finite double is a rational number.
  The result of an arithmetic operation is its exact result rounded to the nearest double,
  a tie going to the even mantissa: \<open>fl\<close>. For a positive \<open>x\<close>, \<open>expo x\<close> is the exponent
  \<open>e\<close> with \<open>2 powi e \<le> x < 2 powi (e + 1)\<close>, and the doubles around \<open>x\<close> are the multiples
  of \<open>2 powi (e - 52)\<close>. Overflow, subnormal numbers, infinities and NaN are not modelled;
  the numbers of the code are far from these ranges. A decimal literal of the source and a
  number parsed from JSON are the \<open>fl\<close> of their decimal value.
\<close>

definition expo :: "rat \<Rightarrow> int" where
  "expo x =
     (let (n, d) = quotient_of x; k = bitlen n - bitlen d
      in if 2 powi k \<le> x then k else k - 1)"

definition roundEven :: "rat \<Rightarrow> int" where
  "roundEven y =
     (let f = \<lfloor>y\<rfloor>; r = y - of_int f
      in if r < 1 / 2 then f else if 1 / 2 < r then f + 1 else if even f then f else f + 1)"

definition fl :: "rat \<Rightarrow> rat" where
  "fl x =
     (if x = 0 then 0
      else let a = \<bar>x\<bar>; ulp = 2 powi (expo a - 52)
           in sgn x * (of_int (roundEven (a / ulp)) * ulp))"

definition fmul :: "rat \<Rightarrow> rat \<Rightarrow> rat" where
  "fmul x y = fl (x * y)"

definition fadd :: "rat \<Rightarrow> rat \<Rightarrow> rat" where
  "fadd x y = fl (x + y)"

definition fdiv :: "rat \<Rightarrow> rat \<Rightarrow> rat" where
  "fdiv x y = fl (x / y)"

text \<open>\<^verbatim>\<open>Math.round\<close>: the nearest integer, a tie going up; exact on a double.\<close>

definition js_round :: "rat \<Rightarrow> int" where
  "js_round x = \<lfloor>x + 1 / 2\<rfloor>"

text \<open>
  The JavaScript expressions \<^verbatim>\<open>a * x + b * y + c * z + d * w\<close> and \<^verbatim>\<open>a * x + b * y + c * z\<close>
  with decimal literals \<open>a\<close>, \<open>b\<close>, \<open>c\<close>, \<open>d\<close> and integer values \<open>x\<close>, \<open>y\<close>, \<open>z\<close>, \<open>w\<close>,
  evaluated from left to right.
\<close>

definition weighted4 ::
  "rat \<Rightarrow> int \<Rightarrow> rat \<Rightarrow> int \<Rightarrow> rat \<Rightarrow> int \<Rightarrow> rat \<Rightarrow> int \<Rightarrow> rat" where
  "weighted4 a x b y c z d w =
     fadd (fadd (fadd (fmul (fl a) (of_int x)) (fmul (fl b) (of_int y)))
                (fmul (fl c) (of_int z)))
          (fmul (fl d) (of_int w))"

definition weighted3 :: "rat \<Rightarrow> int \<Rightarrow> rat \<Rightarrow> int \<Rightarrow> rat \<Rightarrow> int \<Rightarrow> rat" where
  "weighted3 a x b y c z =
     fadd (fadd (fmul (fl a) (of_int x)) (fmul (fl b) (of_int y))) (fmul (fl c) (of_int z))"

text \<open>The decimal text of a number in a template literal.\<close>

fun show_nat :: "nat \<Rightarrow> string" where
  "show_nat n =
     (if n < 10 then [''0123456789'' ! n]
      else show_nat (n div 10) @ [''0123456789'' ! (n mod 10)])"

declare show_nat.simps [simp del]

text \<open>A thrown \<^verbatim>\<open>Error\<close> object: its \<^verbatim>\<open>name\<close> and its \<^verbatim>\<open>message\<close>.\<close>

datatype js_exn = Exn (exn_name: string) (exn_message: string)

text \<open>\<^verbatim>\<open>response.ok\<close> of the Fetch API.\<close>

definition http_ok :: "nat \<Rightarrow> bool" where
  "http_ok st = (200 \<le> st \<and> st \<le> 299)"


section \<open>Shared data\<close>

datatype Severity = critical | high | medium | low

record 'sev issue =
  key :: string
  severity :: 'sev
  "fix" :: string

text \<open>What \<^verbatim>\<open>new URL(s)\<close> exposes to the code: \<^verbatim>\<open>hostname\<close> and \<^verbatim>\<open>toString()\<close>.\<close>

record url =
  hostname :: string
  href :: string

text \<open>The outcome of \<^verbatim>\<open>fetch\<close> on the audited page.\<close>

record page_response =
  content_type :: "string option"
  res_text :: "js_exn + string"
  res_url :: string
  res_status :: nat

datatype page_fetch = PageThrows js_exn | PageResponse page_response

text \<open>
  A request to the PageSpeed endpoint (the query parameters) and its outcome. Of the
  response JSON the code reads \<^verbatim>\<open>error.message\<close>,
  \<^verbatim>\<open>lighthouseResult.categories[id].score\<close>, \<^verbatim>\<open>lighthouseResult.audits[id].numericValue\<close>,
  \<^verbatim>\<open>lighthouseResult.finalUrl\<close> and the length of
  \<^verbatim>\<open>lighthouseResult.audits["network-requests"].details.items\<close>.
\<close>

record psi_request =
  rq_url :: string
  rq_strategy :: string
  rq_categories :: "string list"
  rq_key :: "string option"

record psi_json =
  api_error_message :: "string option"
  category_score :: "string \<rightharpoonup> rat"
  audits :: "string \<rightharpoonup> rat option"
  lh_finalUrl :: "string option"
  network_items :: "nat option"

datatype psi_fetch = PsiThrows js_exn | PsiResponse nat "js_exn + psi_json"

text \<open>
  \<^verbatim>\<open>audits[id]?.numericValue\<close>: the audit may be absent, or present without a numeric
  value. A category score is \<^term>\<open>None\<close> when the category is absent or its score is
  \<^verbatim>\<open>null\<close>.
\<close>

definition numericValue :: "psi_json \<Rightarrow> string \<Rightarrow> rat option" where
  "numericValue j a = (case audits j a of None \<Rightarrow> None | Some v \<Rightarrow> map_option fl v)"


section \<open>The library: \<^verbatim>\<open>analyzeSite\<close>\<close>

subsection \<open>URL normalisation and page retrieval\<close>

datatype error =
    ZodError
  | InvalidUrl
  | HostNotAllowed
  | NotHtml string
  | Raised js_exn

text \<open>\<^verbatim>\<open>raw.match(/^https?:\/\//i)\<close>\<close>

definition hasHttpScheme :: "string \<Rightarrow> bool" where
  "hasHttpScheme raw =
     (prefix ''http://'' (toLowerCase raw) \<or> prefix ''https://'' (toLowerCase raw))"

definition withProto :: "string \<Rightarrow> string" where
  "withProto raw = (if hasHttpScheme raw then raw else ''https://'' @ raw)"

definition normalizeUrl :: "(string \<Rightarrow> url option) \<Rightarrow> string \<Rightarrow> error + string" where
  "normalizeUrl newURL input =
     (if length input < 1 then Inl ZodError
      else
        let raw = trim input
        in (case newURL (withProto raw) of
              None \<Rightarrow> Inl InvalidUrl
            | Some u \<Rightarrow>
                let host = toLowerCase (hostname u)
                in if host \<in> set [''localhost'', ''127.0.0.1'', ''0.0.0.0'']
                   then Inl HostNotAllowed
                   else Inr (href u)))"

record fetched =
  html :: string
  fetched_url :: string
  status :: nat

definition fetchHtml :: "(string \<Rightarrow> page_fetch) \<Rightarrow> string \<Rightarrow> error + fetched" where
  "fetchHtml fetch u =
     (case fetch u of
        PageThrows e \<Rightarrow> Inl (Raised e)
      | PageResponse res \<Rightarrow>
          let ct = orEmpty (content_type res)
          in if \<not> str_includes ct ''text/html'' then Inl (NotHtml ct)
             else (case res_text res of
                     Inl e \<Rightarrow> Inl (Raised e)
                   | Inr h \<Rightarrow>
                       Inr \<lparr>html = h, fetched_url = res_url res, status = res_status res\<rparr>))"

subsection \<open>Heuristic extraction\<close>

text \<open>
  What the selector queries of \<^verbatim>\<open>cheerio\<close> return on the loaded markup:
  \<^verbatim>\<open>$("title").first().text()\<close>, the \<^verbatim>\<open>content\<close>/\<^verbatim>\<open>href\<close> attribute of the first match of
  each \<^verbatim>\<open>meta\<close>/\<^verbatim>\<open>link\<close> selector (\<^term>\<open>None\<close> when there is no match or no attribute), the
  texts of the \<^verbatim>\<open>h1\<close> elements, the (\<^verbatim>\<open>href\<close>, text) pairs of \<^verbatim>\<open>$("a[href]")\<close> and the texts of
  \<^verbatim>\<open>$("a,button")\<close>, all in document order.
\<close>

record document =
  sel_title :: string
  sel_meta_description :: "string option"
  sel_h1 :: "string list"
  sel_canonical :: "string option"
  sel_meta_robots :: "string option"
  sel_og_title :: "string option"
  sel_og_description :: "string option"
  sel_og_image :: "string option"
  sel_a_href :: "(string \<times> string) list"
  sel_a_button :: "string list"

definition detectPlatform :: "string \<Rightarrow> string" where
  "detectPlatform h0 =
     (let h = toLowerCase h0
      in if str_includes h ''cdn.shopify.com'' \<or> str_includes h ''x-shopify'' then ''Shopify''
         else if str_includes h ''woocommerce'' \<or> str_includes h ''wp-content''
           then ''WooCommerce/WordPress''
         else if str_includes h ''magento'' then ''Magento''
         else if str_includes h ''prestashop'' then ''PrestaShop''
         else if str_includes h ''bigcommerce'' then ''BigCommerce''
         else ''Sconosciuta/Custom'')"

text \<open>
  \<^verbatim>\<open>.length\<close> counts UTF-16 code units; on ASCII text that is the number of characters.
\<close>

definition textLen :: "string \<Rightarrow> nat" where
  "textLen s = length (trim s)"

record trust_links =
  contact :: bool
  shipping :: bool
  returns :: bool
  privacy :: bool
  terms :: bool
  faq :: bool

text \<open>The \<^verbatim>\<open>links\<close> array of \<^verbatim>\<open>findTrustLinks\<close>: anchors with an empty \<^verbatim>\<open>href\<close> are skipped.\<close>

definition trustLinkList :: "document \<Rightarrow> (string \<times> string) list" where
  "trustLinkList d =
     filter (\<lambda>(h, l). h \<noteq> [])
       (map (\<lambda>(h, t). (toLowerCase (trim h), toLowerCase (trim t))) (sel_a_href d))"

definition hasAny :: "(string \<times> string) list \<Rightarrow> string list \<Rightarrow> bool" where
  "hasAny links patterns =
     list_ex (\<lambda>(h, l). list_ex (\<lambda>p. str_includes l p \<or> str_includes h p) patterns) links"

definition findTrustLinks :: "document \<Rightarrow> trust_links" where
  "findTrustLinks d =
     (let links = trustLinkList d
      in \<lparr>contact = hasAny links [''contatt'', ''contact'', ''assistenza'', ''support'', ''help''],
          shipping = hasAny links [''sped'', ''shipping'', ''delivery'', ''consegna''],
          returns = hasAny links [''reso'', ''return'', ''cambi'', ''refund''],
          privacy = hasAny links [''privacy'', ''gdpr'', ''cookie''],
          terms = hasAny links [''termini'', ''terms'', ''condizioni''],
          faq = hasAny links [''faq'', ''domande'']\<rparr>)"

record open_graph =
  ogTitle :: string
  ogDesc :: string
  ogImage :: string

record seo_info =
  title :: string
  metaDesc :: string
  h1Text :: string
  canonical :: string
  robots :: string
  openGraph :: open_graph

text \<open>\<^verbatim>\<open>h1.first().text().trim() || ""\<close>\<close>

definition firstText :: "string list \<Rightarrow> string" where
  "firstText ts = (case ts of [] \<Rightarrow> [] | t # _ \<Rightarrow> trim t)"

text \<open>The issues of \<^verbatim>\<open>seoChecks\<close>, in the order of its \<^verbatim>\<open>push\<close> calls.\<close>

definition seoIssues :: "seo_info \<Rightarrow> nat \<Rightarrow> Severity issue list" where
  "seoIssues s h1_length =
     (let tLen = textLen (title s); dLen = textLen (metaDesc s)
      in (if tLen = 0
            then [\<lparr>key = ''seo.title.missing'', severity = high,
                   fix = ''Aggiungi un <title> unico per la homepage.''\<rparr>]
          else if tLen < 25 \<or> tLen > 65
            then [\<lparr>key = ''seo.title.length'', severity = medium,
                   fix = ''Ottimizza il title (attuale '' @ show_nat tLen @ '' caratteri).''\<rparr>]
          else [])
       @ (if dLen = 0
            then [\<lparr>key = ''seo.metadesc.missing'', severity = high,
                   fix = ''Aggiungi meta description per aumentare CTR su Google.''\<rparr>]
          else if dLen < 70 \<or> dLen > 170
            then [\<lparr>key = ''seo.metadesc.length'', severity = medium,
                   fix = ''Ottimizza la description (attuale '' @ show_nat dLen @ '' caratteri).''\<rparr>]
          else [])
       @ (if h1_length = 0
            then [\<lparr>key = ''seo.h1.missing'', severity = high,
                   fix = ''Inserisci un H1 chiaro (proposta di valore).''\<rparr>]
          else if h1_length > 1
            then [\<lparr>key = ''seo.h1.multiple'', severity = low,
                   fix = ''Mantieni 1 solo H1 principale per pagina.''\<rparr>]
          else [])
       @ (if canonical s = []
            then [\<lparr>key = ''seo.canonical.missing'', severity = low,
                   fix = ''Imposta canonical per evitare duplicazioni.''\<rparr>]
          else [])
       @ (if str_includes (toLowerCase (robots s)) ''noindex''
            then [\<lparr>key = ''seo.noindex'', severity = critical,
                   fix = ''Rimuovi noindex dalla homepage (se non voluto).''\<rparr>]
          else [])
       @ (if ogTitle (openGraph s) = [] \<or> ogDesc (openGraph s) = [] \<or> ogImage (openGraph s) = []
            then [\<lparr>key = ''seo.opengraph.incomplete'', severity = low,
                   fix = ''Completa OpenGraph (og:title/og:description/og:image) per anteprime social.''\<rparr>]
          else []))"

definition seoChecks :: "document \<Rightarrow> seo_info \<times> Severity issue list" where
  "seoChecks d =
     (let s = \<lparr>title = sel_title d,
                metaDesc = orEmpty (sel_meta_description d),
                h1Text = firstText (sel_h1 d),
                canonical = orEmpty (sel_canonical d),
                robots = orEmpty (sel_meta_robots d),
                openGraph = \<lparr>ogTitle = orEmpty (sel_og_title d),
                             ogDesc = orEmpty (sel_og_description d),
                             ogImage = orEmpty (sel_og_image d)\<rparr>\<rparr>
      in (s, seoIssues s (length (sel_h1 d))))"

subsection \<open>Scores\<close>

definition penalty :: "Severity \<Rightarrow> int" where
  "penalty sev =
     (if sev = critical then 25
      else if sev = high then 15
      else if sev = medium then 8
      else if sev = low then 3
      else 0)"

definition scoreFromIssues :: "Severity issue list \<Rightarrow> int" where
  "scoreFromIssues issues =
     max 0 (min 100 (foldl (\<lambda>score it. score - penalty (severity it)) 100 issues))"

definition severityRank :: "Severity \<Rightarrow> nat" where
  "severityRank sev = (case sev of critical \<Rightarrow> 0 | high \<Rightarrow> 1 | medium \<Rightarrow> 2 | low \<Rightarrow> 3)"

subsection \<open>The PageSpeed client of the library\<close>

record psi_scores =
  ps_performance :: int
  ps_seo :: int
  ps_bestPractices :: int
  ps_accessibility :: int

record psi_metrics =
  lcpMs :: "rat option"
  cls :: "rat option"
  inpMs :: "rat option"

record psi_data =
  data_scores :: psi_scores
  data_metrics :: psi_metrics

text \<open>
  What \<^verbatim>\<open>runPageSpeed\<close> throws: its own \<^verbatim>\<open>Error\<close> on a response that is not \<^verbatim>\<open>ok\<close>, or
  whatever \<^verbatim>\<open>fetch\<close> or \<^verbatim>\<open>res.json()\<close> threw.
\<close>

datatype psi_failure = PsiStatus nat | PsiRaised js_exn

text \<open>\<^verbatim>\<open>Math.round((cats[id]?.score ?? 0) * 100)\<close>\<close>

definition percent :: "rat option \<Rightarrow> int" where
  "percent sc = js_round (fmul (case sc of None \<Rightarrow> 0 | Some x \<Rightarrow> fl x) 100)"

record env =
  newURL :: "string \<Rightarrow> url option"
  fetchPage :: "string \<Rightarrow> page_fetch"
  cheerioLoad :: "string \<Rightarrow> document"
  PAGESPEED_API_KEY :: "string option"
  fetchPsi :: "psi_request \<Rightarrow> psi_fetch"

text \<open>
  The result is paired with the list of requests that were sent, so that the number of
  attempts can be read off.
\<close>

definition runPageSpeed ::
  "env \<Rightarrow> string \<Rightarrow> string \<Rightarrow> psi_request list \<times> (psi_failure + psi_data)" where
  "runPageSpeed e u strategy =
     (let k = orEmpty (PAGESPEED_API_KEY e);
          qs = \<lparr>rq_url = u, rq_strategy = strategy,
                 rq_categories = [''performance'', ''seo'', ''best-practices'', ''accessibility''],
                 rq_key = (if k \<noteq> [] then Some k else None)\<rparr>
      in ([qs],
          (case fetchPsi e qs of
             PsiThrows x \<Rightarrow> Inl (PsiRaised x)
           | PsiResponse st body \<Rightarrow>
               if \<not> http_ok st then Inl (PsiStatus st)
               else (case body of
                       Inl x \<Rightarrow> Inl (PsiRaised x)
                     | Inr json \<Rightarrow>
                         Inr \<lparr>data_scores =
                                \<lparr>ps_performance = percent (category_score json ''performance''),
                                 ps_seo = percent (category_score json ''seo''),
                                 ps_bestPractices = percent (category_score json ''best-practices''),
                                 ps_accessibility = percent (category_score json ''accessibility'')\<rparr>,
                              data_metrics =
                                \<lparr>lcpMs = numericValue json ''largest-contentful-paint'',
                                 cls = numericValue json ''cumulative-layout-shift'',
                                 inpMs = numericValue json ''interaction-to-next-paint''\<rparr>\<rparr>))))"

text \<open>\<^verbatim>\<open>String(e?.message || e)\<close> in the \<^verbatim>\<open>catch\<close> of \<^verbatim>\<open>analyzeSite\<close>.\<close>

definition failureText :: "psi_failure \<Rightarrow> string" where
  "failureText f =
     (case f of
        PsiStatus st \<Rightarrow> ''PageSpeed API error ('' @ show_nat st @ '')''
      | PsiRaised x \<Rightarrow> (if exn_message x \<noteq> [] then exn_message x else exn_name x))"

subsection \<open>The report\<close>

datatype pagespeed = PsiData psi_data | PsiError string

record scores =
  total :: int
  performance :: "int option"
  seo :: int
  ux :: int
  trust :: int

text \<open>
  The fields \<^verbatim>\<open>seo\<close> and \<^verbatim>\<open>trust\<close> of the returned object are \<open>seoFindings\<close> and
  \<open>trustFindings\<close> here (the names \<open>seo\<close> and \<open>trust\<close> are those of the two scores).
\<close>

record report =
  input :: string
  finalUrl :: string
  httpStatus :: nat
  platform :: string
  scores :: scores
  pagespeed :: pagespeed
  seoFindings :: seo_info
  trustFindings :: trust_links
  issues :: "Severity issue list"
  quickWins :: "string list"

definition trustIssuesOf :: "trust_links \<Rightarrow> Severity issue list" where
  "trustIssuesOf t =
       (if \<not> contact t
          then [\<lparr>key = ''trust.contact.missing'', severity = high,
                 fix = ''Rendi visibili Contatti/Assistenza (header o footer).''\<rparr>]
        else [])
     @ (if \<not> shipping t
          then [\<lparr>key = ''trust.shipping.missing'', severity = high,
                 fix = ''Aggiungi pagina Spedizioni e linkala nel footer.''\<rparr>]
        else [])
     @ (if \<not> returns t
          then [\<lparr>key = ''trust.returns.missing'', severity = high,
                 fix = ''Aggiungi pagina Resi/Cambi vicino alle CTA prodotto.''\<rparr>]
        else [])
     @ (if \<not> privacy t
          then [\<lparr>key = ''trust.privacy.missing'', severity = medium,
                 fix = ''Linka Privacy/Cookie policy nel footer.''\<rparr>]
        else [])
     @ (if \<not> terms t
          then [\<lparr>key = ''trust.terms.missing'', severity = low,
                 fix = ''Aggiungi Termini e Condizioni nel footer.''\<rparr>]
        else [])"

definition hasPrimaryCta :: "document \<Rightarrow> bool" where
  "hasPrimaryCta d =
     (let btnTexts = map (\<lambda>t. toLowerCase (trim t)) (sel_a_button d)
      in list_ex (\<lambda>t. list_ex (\<lambda>k. str_includes t k)
                   [''acquista'', ''shop'', ''scopri'', ''compra'', ''aggiungi'']) btnTexts)"

definition uxIssuesOf :: "bool \<Rightarrow> Severity issue list" where
  "uxIssuesOf cta =
     (if \<not> cta
        then [\<lparr>key = ''ux.cta.unclear'', severity = medium,
               fix = ''Inserisci una CTA primaria chiara sopra la piega (es. 'Scopri i prodotti').''\<rparr>]
      else [])"

text \<open>\<^verbatim>\<open>Array.prototype.sort\<close> is stable, and so is \<^const>\<open>sort_key\<close>.\<close>

definition sortBySeverity :: "Severity issue list \<Rightarrow> Severity issue list" where
  "sortBySeverity xs = sort_key (\<lambda>i. severityRank (severity i)) xs"

definition quickWinsOf :: "Severity issue list \<Rightarrow> string list" where
  "quickWinsOf xs =
     map fix (take 7 (filter (\<lambda>i. severity i \<in> set [critical, high, medium]) xs))"

text \<open>\<^verbatim>\<open>analyzeSite\<close> from \<^verbatim>\<open>cheerio.load\<close> on: nothing below this point throws.\<close>

definition analyzeFetched :: "env \<Rightarrow> string \<Rightarrow> fetched \<Rightarrow> report" where
  "analyzeFetched e inputUrl page =
     (let d = cheerioLoad e (html page);
          plat = detectPlatform (html page);
          tr = findTrustLinks d;
          (seoI, seoIss) = seoChecks d;
          trustIssues = trustIssuesOf tr;
          uxIssues = uxIssuesOf (hasPrimaryCta d);
          psi = (case snd (runPageSpeed e (fetched_url page) ''mobile'') of
                   Inl f \<Rightarrow> PsiError (failureText f)
                 | Inr dat \<Rightarrow> PsiData dat);
          iss = sortBySeverity (seoIss @ trustIssues @ uxIssues);
          trustScore = scoreFromIssues trustIssues;
          uxScore = scoreFromIssues uxIssues;
          perfScore = (case psi of PsiData dat \<Rightarrow> Some (ps_performance (data_scores dat))
                       | PsiError _ \<Rightarrow> None);
          seoScore = (case psi of PsiData dat \<Rightarrow> ps_seo (data_scores dat)
                      | PsiError _ \<Rightarrow> scoreFromIssues seoIss);
          tot = (case perfScore of
                   Some p \<Rightarrow>
                     js_round (weighted4 0.35 p 0.3 uxScore 0.2 seoScore 0.15 trustScore)
                 | None \<Rightarrow>
                     js_round (weighted3 0.4 seoScore 0.35 uxScore 0.25 trustScore))
      in \<lparr>input = inputUrl,
          finalUrl = fetched_url page,
          httpStatus = status page,
          platform = plat,
          scores = \<lparr>total = tot, performance = perfScore, seo = seoScore, ux = uxScore,
                     trust = trustScore\<rparr>,
          pagespeed = psi,
          seoFindings = seoI,
          trustFindings = tr,
          issues = iss,
          quickWins = quickWinsOf iss\<rparr>)"

definition analyzeSite :: "env \<Rightarrow> string \<Rightarrow> error + report" where
  "analyzeSite e inputUrl =
     (case normalizeUrl (newURL e) inputUrl of
        Inl err \<Rightarrow> Inl err
      | Inr u \<Rightarrow>
          (case fetchHtml (fetchPage e) u of
             Inl err \<Rightarrow> Inl err
           | Inr page \<Rightarrow> Inr (analyzeFetched e inputUrl page)))"

section \<open>The self-contained handler: \<^verbatim>\<open>POST\<close> of \<^verbatim>\<open>route.ts\<close>\<close>

subsection \<open>Helpers\<close>

definition normalizeUrl_route :: "string \<Rightarrow> string option" where
  "normalizeUrl_route inp =
     (let s = trim inp
      in if s = [] then None
         else if hasHttpScheme s then Some s
         else Some (''https://'' @ s))"

text \<open>
  \<^verbatim>\<open>bytesToKB\<close> and \<^verbatim>\<open>extractPageStats\<close>.
\<close>

definition bytesToKB :: "rat option \<Rightarrow> rat option" where
  "bytesToKB bytes =
     (case bytes of
        None \<Rightarrow> None
      | Some b \<Rightarrow> Some (fdiv (of_int (js_round (fmul (fdiv b 1024) 10))) 10))"

record page_stats =
  totalWeightKB :: "rat option"
  requestsCount :: "nat option"

definition extractPageStats :: "psi_json \<Rightarrow> page_stats" where
  "extractPageStats j =
     \<lparr>totalWeightKB = bytesToKB (numericValue j ''total-byte-weight''),
      requestsCount = network_items j\<rparr>"

definition detectPlatform_route :: "string \<Rightarrow> string" where
  "detectPlatform_route h0 =
     (let h = toLowerCase h0
      in if str_includes h ''cdn.shopify.com'' \<or> str_includes h ''shopify'' then ''Shopify''
         else if str_includes h ''wp-content'' \<or> str_includes h ''wordpress'' then ''WordPress''
         else ''Sconosciuta/Custom'')"

definition computeTrustScore :: "trust_links \<Rightarrow> int" where
  "computeTrustScore t = max 0 (min 100 (if \<not> shipping t then 100 - 15 else 100))"

definition weightedTotal :: "int \<Rightarrow> int \<Rightarrow> int \<Rightarrow> int \<Rightarrow> int" where
  "weightedTotal perf seoS uxS trustS =
     js_round (weighted4 0.35 perf 0.25 seoS 0.2 uxS 0.2 trustS)"

text \<open>
  The test \<^verbatim>\<open>/class=["'][^"']*(btn|button)[^"']*["']/i.test(html)\<close>: somewhere in the markup
  stands \<^verbatim>\<open>class=\<close>, a quote, and before the next quote a run of characters that contains
  \<^verbatim>\<open>btn\<close> or \<^verbatim>\<open>button\<close>. The argument of \<open>classButtonAt\<close> is already in lower case.
\<close>

definition isQuote :: "char \<Rightarrow> bool" where
  "isQuote c = (c = CHR 0x22 \<or> c = CHR 0x27)"

definition classButtonAt :: "string \<Rightarrow> bool" where
  "classButtonAt s =
     (prefix ''class='' s \<and>
      (case drop 6 s of
         [] \<Rightarrow> False
       | q # rest \<Rightarrow>
           isQuote q \<and> dropWhile (\<lambda>c. \<not> isQuote c) rest \<noteq> [] \<and>
           (str_includes (takeWhile (\<lambda>c. \<not> isQuote c) rest) ''btn'' \<or>
            str_includes (takeWhile (\<lambda>c. \<not> isQuote c) rest) ''button'')))"

fun classButtonFrom :: "string \<Rightarrow> bool" where
  "classButtonFrom [] = False"
| "classButtonFrom (c # cs) = (classButtonAt (c # cs) \<or> classButtonFrom cs)"

definition classButtonTest :: "string \<Rightarrow> bool" where
  "classButtonTest h = classButtonFrom (toLowerCase h)"

subsection \<open>The PageSpeed client with its keyless retry\<close>

text \<open>
  The object returned by \<^verbatim>\<open>attempt\<close>: \<^verbatim>\<open>{ok: true, json}\<close> or \<^verbatim>\<open>{ok: false, error, json?}\<close>.
\<close>

datatype attempt_result = AttemptOk psi_json | AttemptFailed string "psi_json option"

text \<open>A string used as a condition (\<^verbatim>\<open>if (maybeKey)\<close>, \<^verbatim>\<open>key &&\<close>).\<close>

definition truthy :: "string option \<Rightarrow> bool" where
  "truthy x = (case x of None \<Rightarrow> False | Some s \<Rightarrow> s \<noteq> [])"

definition attempt ::
  "(psi_request \<Rightarrow> psi_fetch) \<Rightarrow> string \<Rightarrow> string option \<Rightarrow> psi_request \<times> attempt_result" where
  "attempt fetch u maybeKey =
     (let apiUrl = \<lparr>rq_url = u, rq_strategy = ''mobile'',
                     rq_categories = [''performance'', ''accessibility'', ''best-practices'', ''seo''],
                     rq_key = (if truthy maybeKey then maybeKey else None)\<rparr>
      in (apiUrl,
          (case fetch apiUrl of
             PsiThrows x \<Rightarrow>
               AttemptFailed (if exn_message x \<noteq> [] then exn_message x else ''Errore PageSpeed'') None
           | PsiResponse st body \<Rightarrow>
               (case body of
                  Inl x \<Rightarrow>
                    AttemptFailed (if exn_message x \<noteq> [] then exn_message x else ''Errore PageSpeed'')
                      None
                | Inr j \<Rightarrow>
                    if \<not> http_ok st
                    then AttemptFailed
                           (if truthy (api_error_message j) then orEmpty (api_error_message j)
                            else ''PageSpeed error ('' @ show_nat st @ '')'')
                           (Some j)
                    else AttemptOk j))))"

text \<open>
  \<^verbatim>\<open>/api key not valid|invalid api key|keyinvalid|not authorized|forbidden/i.test(msg)\<close>
\<close>

definition authFailure :: "string \<Rightarrow> bool" where
  "authFailure msg =
     list_ex (\<lambda>p. str_includes (toLowerCase msg) p)
       [''api key not valid'', ''invalid api key'', ''keyinvalid'', ''not authorized'', ''forbidden'']"

definition attemptOk :: "attempt_result \<Rightarrow> bool" where
  "attemptOk a = (case a of AttemptOk _ \<Rightarrow> True | AttemptFailed _ _ \<Rightarrow> False)"

definition attemptError :: "attempt_result \<Rightarrow> string option" where
  "attemptError a = (case a of AttemptOk _ \<Rightarrow> None | AttemptFailed m _ \<Rightarrow> Some m)"

text \<open>
  As for the library's client, the result is paired with the requests that were sent, in
  the order in which they were sent.
\<close>

definition runPageSpeed_route ::
  "(psi_request \<Rightarrow> psi_fetch) \<Rightarrow> string \<Rightarrow> string option
     \<Rightarrow> psi_request list \<times> attempt_result" where
  "runPageSpeed_route fetch u k =
     (let (rq1, first) = attempt fetch u k
      in if \<not> attemptOk first \<and> truthy k \<and> authFailure (orEmpty (attemptError first))
         then (let (rq2, second) = attempt fetch u None
               in if attemptOk second then ([rq1, rq2], second) else ([rq1, rq2], first))
         else ([rq1], first))"

subsection \<open>The handler\<close>

text \<open>
  The scans of the markup that are written with regular expressions or \<^verbatim>\<open>JSON.parse\<close>
  (\<^verbatim>\<open>getTagContent\<close>, \<^verbatim>\<open>getMetaContent\<close>, \<^verbatim>\<open>getLinkHref\<close>, \<^verbatim>\<open>countTags\<close>, the list of
  \<^verbatim>\<open>h1\<close> texts joined by a blank line, \<^verbatim>\<open>parseLdJsonTypes\<close>, \<^verbatim>\<open>detectTracking\<close>,
  \<^verbatim>\<open>detectPwaFromHtml\<close>) are parameters of the handler.
\<close>

record ld_json =
  hasLdJson :: bool
  ld_count :: nat
  ld_types :: "string list"

record tracking =
  metaPixel :: bool
  gtm :: bool
  ga4 :: bool
  googleAds :: bool
  tiktok :: bool

record pwa =
  available :: bool
  hasManifest :: bool
  hasServiceWorker :: bool

record scanners =
  getTagContent :: "string \<Rightarrow> string \<Rightarrow> string"
  getMetaContent :: "string \<Rightarrow> string \<Rightarrow> string \<Rightarrow> string"
  getLinkHref :: "string \<Rightarrow> string \<Rightarrow> string"
  countTags :: "string \<Rightarrow> string \<Rightarrow> nat"
  h1Joined :: "string \<Rightarrow> string"
  parseLdJsonTypes :: "string \<Rightarrow> ld_json"
  detectTracking :: "string \<Rightarrow> tracking"
  detectPwaFromHtml :: "string \<Rightarrow> pwa"

record route_env =
  rt_fetchPage :: "string \<Rightarrow> page_fetch"
  rt_fetchPsi :: "psi_request \<Rightarrow> psi_fetch"
  rt_PAGESPEED_API_KEY :: "string option"
  rt_scan :: scanners

datatype RouteSeverity = High | Medium | Low

definition severityRank_route :: "RouteSeverity \<Rightarrow> nat" where
  "severityRank_route sev = (case sev of High \<Rightarrow> 0 | Medium \<Rightarrow> 1 | Low \<Rightarrow> 2)"

record route_scores =
  rt_total :: "int option"
  rt_performance :: "int option"
  rt_seo :: "int option"
  rt_ux :: int
  rt_trust :: int

record route_psi_scores =
  rps_performance :: "int option"
  rps_seo :: "int option"
  rps_bestPractices :: "int option"
  rps_accessibility :: "int option"

record route_pagespeed =
  rp_scores :: route_psi_scores
  rp_metrics :: psi_metrics
  rp_error :: "string option"

record tech =
  tech_page :: page_stats
  tech_schema :: "ld_json option"
  tech_tracking :: "tracking option"
  tech_pwa :: pwa

record route_report =
  rt_input :: string
  rt_finalUrl :: string
  rt_httpStatus :: "nat option"
  rt_platform :: string
  rt_scores :: route_scores
  rt_pagespeed :: route_pagespeed
  rt_seoFindings :: seo_info
  rt_trustFindings :: trust_links
  rt_tech :: tech
  rt_issues :: "RouteSeverity issue list"
  rt_quickWins :: "string list"

text \<open>The body of the request, and the reply of the handler.\<close>

datatype request_body = BodyError js_exn | Body "string option" "string option"

datatype reply = ErrorReply nat string | ReportReply route_report

text \<open>
  The first \<^verbatim>\<open>try\<close> block of \<^verbatim>\<open>POST\<close>: the markup (empty when nothing was retrieved), the
  status (assigned before the body is read) and the final URL.
\<close>

definition retrieve :: "(string \<Rightarrow> page_fetch) \<Rightarrow> string \<Rightarrow> string \<times> nat option \<times> string" where
  "retrieve fetch inputUrl =
     (case fetch inputUrl of
        PageThrows x \<Rightarrow> ([], None, inputUrl)
      | PageResponse res \<Rightarrow>
          (case res_text res of
             Inl x \<Rightarrow> ([], Some (res_status res), inputUrl)
           | Inr t \<Rightarrow>
               (take 2000000 t, Some (res_status res),
                if res_url res \<noteq> [] then res_url res else inputUrl)))"

text \<open>\<^verbatim>\<open>score(id)\<close>\<close>

definition score_route :: "psi_json \<Rightarrow> string \<Rightarrow> int option" where
  "score_route j c =
     (case category_score j c of None \<Rightarrow> None | Some x \<Rightarrow> Some (js_round (fmul (fl x) 100)))"

definition seoOf :: "scanners \<Rightarrow> string \<Rightarrow> seo_info" where
  "seoOf sc h =
     (if h \<noteq> []
      then \<lparr>title = getTagContent sc h ''title'',
            metaDesc = getMetaContent sc h ''name'' ''description'',
            h1Text = h1Joined sc h,
            canonical = getLinkHref sc h ''canonical'',
            robots = getMetaContent sc h ''name'' ''robots'',
            openGraph = \<lparr>ogTitle = getMetaContent sc h ''property'' ''og:title'',
                         ogDesc = getMetaContent sc h ''property'' ''og:description'',
                         ogImage = getMetaContent sc h ''property'' ''og:image''\<rparr>\<rparr>
      else \<lparr>title = [], metaDesc = [], h1Text = [], canonical = [], robots = [],
            openGraph = \<lparr>ogTitle = [], ogDesc = [], ogImage = []\<rparr>\<rparr>)"

definition trustOf :: "string \<Rightarrow> trust_links" where
  "trustOf h =
     (let lower = toLowerCase h; has = str_includes lower
      in \<lparr>contact = (has ''contatti'' \<or> has ''contact'' \<or> has ''chi siamo'' \<or> has ''about''),
          shipping = (has ''spedizion'' \<or> has ''shipping'' \<or> has ''consegna''),
          returns = (has ''resi'' \<or> has ''reso'' \<or> has ''returns''),
          privacy = has ''privacy'',
          terms = (has ''termini'' \<or> has ''terms'' \<or> has ''condizioni''),
          faq = (has ''faq'' \<or> has ''domande frequenti'')\<rparr>)"

definition hasCTA :: "string \<Rightarrow> bool" where
  "hasCTA h =
     (let lower = toLowerCase h; has = str_includes lower
      in has ''acquista'' \<or> has ''shop'' \<or> has ''nuovi arrivi'' \<or> has ''collezione''
         \<or> has ''scopri'' \<or> classButtonTest h)"

text \<open>
  The issues in the order of the \<^verbatim>\<open>push\<close> calls. The last remediation text has its example
  in typographic quotation marks (three bytes each in UTF-8).
\<close>

definition issues_route ::
  "trust_links \<Rightarrow> seo_info \<Rightarrow> nat \<Rightarrow> bool \<Rightarrow> RouteSeverity issue list" where
  "issues_route t s h1Count cta =
     (let titleLen = length (trim (title s)); mdLen = length (trim (metaDesc s))
      in (if \<not> shipping t
            then [\<lparr>key = ''trust.shipping.missing'', severity = High,
                   fix = ''Aggiungi una pagina Spedizioni e linkala nel footer.''\<rparr>]
          else [])
       @ (if titleLen > 0 \<and> titleLen < 25
            then [\<lparr>key = ''seo.title.length'', severity = Medium,
                   fix = ''Titolo pagina troppo corto (attuale '' @ show_nat titleLen
                         @ '' caratteri).''\<rparr>]
          else [])
       @ (if mdLen > 0 \<and> (mdLen < 70 \<or> mdLen > 160)
            then [\<lparr>key = ''seo.metadesc.length'', severity = Medium,
                   fix = ''Descrizione Google non ottimale (attuale '' @ show_nat mdLen
                         @ '' caratteri).''\<rparr>]
          else [])
       @ (if h1Count > 1
            then [\<lparr>key = ''seo.h1.multiple'', severity = Low,
                   fix = ''Troppi titoli principali (H1): mantieni 1 solo H1 per pagina.''\<rparr>]
          else [])
       @ (if canonical s = []
            then [\<lparr>key = ''seo.canonical.missing'', severity = Low,
                   fix = ''Manca la canonical (utile per evitare duplicazioni).''\<rparr>]
          else [])
       @ (if \<not> cta
            then [\<lparr>key = ''ux.cta.unclear'', severity = Medium,
                   fix = ''CTA poco chiara: aggiungi un bottone principale sopra la piega (es. ''
                         @ [CHR 0xE2, CHR 0x80, CHR 0x9C] @ ''Scopri i prodotti''
                         @ [CHR 0xE2, CHR 0x80, CHR 0x9D] @ '').''\<rparr>]
          else []))"

definition quickWins_route :: "RouteSeverity issue list \<Rightarrow> string list" where
  "quickWins_route xs = map fix (take 3 (sort_key (\<lambda>i. severityRank_route (severity i)) xs))"

text \<open>\<^verbatim>\<open>body?.domain ?? body?.url ?? ""\<close>\<close>

definition inputRaw :: "string option \<Rightarrow> string option \<Rightarrow> string" where
  "inputRaw dmn ur =
     (case dmn of Some d \<Rightarrow> d | None \<Rightarrow> (case ur of Some v \<Rightarrow> v | None \<Rightarrow> []))"

text \<open>\<^verbatim>\<open>POST\<close> from the reading of the API key on, for an accepted input.\<close>

definition POST_report :: "route_env \<Rightarrow> string \<Rightarrow> route_report" where
  "POST_report e inputUrl =
     (let (h, httpSt, finalU) = retrieve (rt_fetchPage e) inputUrl;
          plat = (if h \<noteq> [] then detectPlatform_route h else ''Sconosciuta/Custom'');
          ps = snd (runPageSpeed_route (rt_fetchPsi e)
                      (if finalU \<noteq> [] then finalU else inputUrl)
                      (rt_PAGESPEED_API_KEY e));
          pagespeedJson = (case ps of AttemptOk j \<Rightarrow> Some j | AttemptFailed _ _ \<Rightarrow> None);
          pagespeedError = attemptError ps;
          pagespeedScores =
            (case pagespeedJson of
               Some j \<Rightarrow> \<lparr>rps_performance = score_route j ''performance'',
                           rps_seo = score_route j ''seo'',
                           rps_bestPractices = score_route j ''best-practices'',
                           rps_accessibility = score_route j ''accessibility''\<rparr>
             | None \<Rightarrow> \<lparr>rps_performance = None, rps_seo = None,
                         rps_bestPractices = None, rps_accessibility = None\<rparr>);
          metrics =
            (case pagespeedJson of
               Some j \<Rightarrow>
                 \<lparr>lcpMs = numericValue j ''largest-contentful-paint'',
                  cls = numericValue j ''cumulative-layout-shift'',
                  inpMs = (if audits j ''interaction-to-next-paint'' \<noteq> None
                           then numericValue j ''interaction-to-next-paint''
                           else numericValue j ''interactive-to-next-paint'')\<rparr>
             | None \<Rightarrow> \<lparr>lcpMs = None, cls = None, inpMs = None\<rparr>);
          pageStats =
            (case pagespeedJson of
               Some j \<Rightarrow> extractPageStats j
             | None \<Rightarrow> \<lparr>totalWeightKB = None, requestsCount = None\<rparr>);
          seoI = seoOf (rt_scan e) h;
          h1Count = (if h \<noteq> [] then countTags (rt_scan e) h ''h1'' else 0);
          tr = trustOf h;
          cta = hasCTA h;
          uxS = (if cta then 100 else 92);
          iss = issues_route tr seoI h1Count cta;
          tch = (if h \<noteq> []
                 then \<lparr>tech_page = pageStats,
                       tech_schema = Some (parseLdJsonTypes (rt_scan e) h),
                       tech_tracking = Some (detectTracking (rt_scan e) h),
                       tech_pwa = detectPwaFromHtml (rt_scan e) h\<rparr>
                 else \<lparr>tech_page = pageStats, tech_schema = None, tech_tracking = None,
                       tech_pwa = \<lparr>available = False, hasManifest = False,
                                   hasServiceWorker = False\<rparr>\<rparr>);
          perf = rps_performance pagespeedScores;
          seoScore = rps_seo pagespeedScores;
          trustScore = computeTrustScore tr;
          tot = (case (perf, seoScore) of
                   (Some p, Some q) \<Rightarrow> Some (weightedTotal p q uxS trustScore)
                 | _ \<Rightarrow> None)
      in \<lparr>rt_input = inputUrl,
          rt_finalUrl = (case (case pagespeedJson of Some j \<Rightarrow> lh_finalUrl j
                               | None \<Rightarrow> None) of
                           Some f \<Rightarrow> f
                         | None \<Rightarrow> finalU),
          rt_httpStatus = httpSt,
          rt_platform = plat,
          rt_scores = \<lparr>rt_total = tot, rt_performance = perf, rt_seo = seoScore,
                        rt_ux = uxS, rt_trust = trustScore\<rparr>,
          rt_pagespeed = \<lparr>rp_scores = pagespeedScores, rp_metrics = metrics,
                           rp_error = (if truthy pagespeedError then pagespeedError
                                       else None)\<rparr>,
          rt_seoFindings = seoI,
          rt_trustFindings = tr,
          rt_tech = tch,
          rt_issues = iss,
          rt_quickWins = quickWins_route iss\<rparr>)"

definition POST :: "route_env \<Rightarrow> request_body \<Rightarrow> reply" where
  "POST e req =
     (case req of
        BodyError x \<Rightarrow> ErrorReply 500 (exn_message x)
      | Body dmn ur \<Rightarrow>
          (case normalizeUrl_route (inputRaw dmn ur) of
             None \<Rightarrow> ErrorReply 400 ''Missing domain/url''
           | Some inputUrl \<Rightarrow> ReportReply (POST_report e inputUrl)))"

text \<open>Observations of a reply.\<close>

definition replyReport :: "reply \<Rightarrow> route_report option" where
  "replyReport rp = (case rp of ReportReply r \<Rightarrow> Some r | ErrorReply _ _ \<Rightarrow> None)"

definition replyScores :: "reply \<Rightarrow> route_scores option" where
  "replyScores rp = (case rp of ReportReply r \<Rightarrow> Some (rt_scores r) | ErrorReply _ _ \<Rightarrow> None)"


section \<open>Assumptions on the outside world\<close>

text \<open>
  The contract of the PageSpeed API for category scores: every score in a response lies
  between 0 and 1.
\<close>

definition unitScores :: "env \<Rightarrow> bool" where
  "unitScores e =
     (\<forall>rq st j c x. fetchPsi e rq = PsiResponse st (Inr j) \<and> category_score j c = Some x
        \<longrightarrow> 0 \<le> x \<and> x \<le> 1)"

text \<open>The value that the \<^verbatim>\<open>try\<close>/\<^verbatim>\<open>catch\<close> of \<^verbatim>\<open>analyzeSite\<close> assigns to \<^verbatim>\<open>psi\<close>.\<close>

definition psiOf :: "env \<Rightarrow> fetched \<Rightarrow> pagespeed" where
  "psiOf e page =
     (case snd (runPageSpeed e (fetched_url page) ''mobile'') of
        Inl f \<Rightarrow> PsiError (failureText f)
      | Inr dat \<Rightarrow> PsiData dat)"

text \<open>The result of the PageSpeed client inside \<^verbatim>\<open>POST\<close>.\<close>

definition psRoute :: "route_env \<Rightarrow> string \<Rightarrow> attempt_result" where
  "psRoute e i =
     (let finalU = snd (snd (retrieve (rt_fetchPage e) i))
      in snd (runPageSpeed_route (rt_fetchPsi e) (if finalU \<noteq> [] then finalU else i)
                (rt_PAGESPEED_API_KEY e)))"

text \<open>
  The first scenario of the specification, as a condition on what the selector queries
  return: an empty title, no meta description, exactly one \<^verbatim>\<open>h1\<close>, no canonical link, no
  OpenGraph tag, no link of any trust category and no call-to-action text.
\<close>

definition scenario :: "document \<Rightarrow> bool" where
  "scenario d =
     (textLen (sel_title d) = 0 \<and> sel_meta_description d = None \<and> length (sel_h1 d) = 1
      \<and> sel_canonical d = None
      \<and> sel_og_title d = None \<and> sel_og_description d = None \<and> sel_og_image d = None
      \<and> findTrustLinks d = \<lparr>contact = False, shipping = False, returns = False,
                              privacy = False, terms = False, faq = False\<rparr>
      \<and> \<not> hasPrimaryCta d)"

text \<open>
  The contract of the URL parser of the runtime that idempotence of normalisation rests
  on: the serialisation of a parsed \<^verbatim>\<open>http\<close>/\<^verbatim>\<open>https\<close> URL is not empty, has no surrounding
  white space, starts with its scheme, and parses to the same URL again.
\<close>

definition urlRoundTrip :: "(string \<Rightarrow> url option) \<Rightarrow> bool" where
  "urlRoundTrip parse =
     (\<forall>s u. hasHttpScheme s \<and> parse s = Some u \<longrightarrow>
        href u \<noteq> [] \<and> trim (href u) = href u \<and> hasHttpScheme (href u)
        \<and> parse (href u) = Some u)"


section \<open>Sample worlds\<close>

text \<open>
  Concrete inputs on which the results below are exercised. The page is the one of the
  specification's first scenario: an empty \<^verbatim>\<open>title\<close>, no meta description, one \<^verbatim>\<open>h1\<close>, no
  canonical link, no OpenGraph tags, no links and no buttons; \<open>sample_document\<close> is what
  the selector queries return on it, and \<open>sample_newURL\<close> is the URL parser on the few
  strings that are used.
\<close>

definition sample_markup :: string where
  "sample_markup =
     ''<html><head><title></title></head><body><h1>Welcome</h1></body></html>''"

definition sample_document :: document where
  "sample_document =
     \<lparr>sel_title = [], sel_meta_description = None, sel_h1 = [''Welcome''],
      sel_canonical = None, sel_meta_robots = None, sel_og_title = None,
      sel_og_description = None, sel_og_image = None, sel_a_href = [], sel_a_button = []\<rparr>"

definition sample_newURL :: "string \<Rightarrow> url option" where
  "sample_newURL s =
     (if s = ''https://example.com'' \<or> s = ''https://example.com/''
        then Some \<lparr>hostname = ''example.com'', href = ''https://example.com/''\<rparr>
      else if s = ''https://LOCALHOST/admin?x=1'' \<or> s = ''https://localhost/admin?x=1''
        then Some \<lparr>hostname = ''localhost'', href = ''https://localhost/admin?x=1''\<rparr>
      else None)"

definition sample_page :: page_fetch where
  "sample_page =
     PageResponse \<lparr>content_type = Some ''text/html; charset=utf-8'',
                    res_text = Inr sample_markup,
                    res_url = ''https://example.com/'',
                    res_status = 200\<rparr>"

definition sample_fetched :: fetched where
  "sample_fetched =
     \<lparr>html = sample_markup, fetched_url = ''https://example.com/'', status = 200\<rparr>"

definition sample_env :: "page_fetch \<Rightarrow> (psi_request \<Rightarrow> psi_fetch) \<Rightarrow> env" where
  "sample_env pg ps =
     \<lparr>newURL = sample_newURL, fetchPage = (\<lambda>_. pg), cheerioLoad = (\<lambda>_. sample_document),
      PAGESPEED_API_KEY = Some ''secret'', fetchPsi = ps\<rparr>"

definition psi_down :: "psi_request \<Rightarrow> psi_fetch" where
  "psi_down rq = PsiThrows (Exn ''TypeError'' ''fetch failed'')"

definition sample_json :: "(string \<rightharpoonup> rat) \<Rightarrow> psi_json" where
  "sample_json cats =
     \<lparr>api_error_message = None, category_score = cats, audits = Map.empty,
      lh_finalUrl = None, network_items = None\<rparr>"

definition up_json :: psi_json where
  "up_json =
     sample_json [''performance'' \<mapsto> 0.9, ''seo'' \<mapsto> 0.8, ''best-practices'' \<mapsto> 1,
                  ''accessibility'' \<mapsto> 0.75]"

definition psi_up :: "psi_request \<Rightarrow> psi_fetch" where
  "psi_up rq = PsiResponse 200 (Inr up_json)"

text \<open>
  Worlds for the handler of \<^verbatim>\<open>route.ts\<close>. In those used below the page cannot be
  retrieved, so the scans of the markup are never consulted; \<open>idle_scanners\<close> fills the
  parameter.
\<close>

definition idle_scanners :: scanners where
  "idle_scanners =
     \<lparr>getTagContent = (\<lambda>h t. []), getMetaContent = (\<lambda>h k v. []), getLinkHref = (\<lambda>h r. []),
      countTags = (\<lambda>h t. 0), h1Joined = (\<lambda>h. []),
      parseLdJsonTypes = (\<lambda>h. \<lparr>hasLdJson = False, ld_count = 0, ld_types = []\<rparr>),
      detectTracking = (\<lambda>h. \<lparr>metaPixel = False, gtm = False, ga4 = False, googleAds = False,
                               tiktok = False\<rparr>),
      detectPwaFromHtml = (\<lambda>h. \<lparr>available = False, hasManifest = False,
                                  hasServiceWorker = False\<rparr>)\<rparr>"

definition page_down :: page_fetch where
  "page_down = PageThrows (Exn ''TypeError'' ''fetch failed'')"

definition route_world :: "page_fetch \<Rightarrow> (psi_request \<Rightarrow> psi_fetch) \<Rightarrow> route_env" where
  "route_world pg ps =
     \<lparr>rt_fetchPage = (\<lambda>_. pg), rt_fetchPsi = ps, rt_PAGESPEED_API_KEY = Some ''secret'',
      rt_scan = idle_scanners\<rparr>"

definition psi_half :: "psi_request \<Rightarrow> psi_fetch" where
  "psi_half rq = PsiResponse 200 (Inr (sample_json [''performance'' \<mapsto> 0.5, ''seo'' \<mapsto> 0.5]))"

definition psi_seo_only :: "psi_request \<Rightarrow> psi_fetch" where
  "psi_seo_only rq = PsiResponse 200 (Inr (sample_json [''seo'' \<mapsto> 0.5]))"

text \<open>A PageSpeed API that breaks its contract: category scores of 1.5.\<close>

definition over_json :: psi_json where
  "over_json = sample_json [''performance'' \<mapsto> 1.5, ''seo'' \<mapsto> 1.5]"

definition psi_over :: "psi_request \<Rightarrow> psi_fetch" where
  "psi_over rq = PsiResponse 200 (Inr over_json)"

text \<open>
  A PageSpeed API that rejects the configured key with its usual message and serves the
  request without a key.
\<close>

definition bad_key_json :: psi_json where
  "bad_key_json =
     \<lparr>api_error_message = Some ''API key not valid. Please pass a valid API key.'',
      category_score = Map.empty, audits = Map.empty, lh_finalUrl = None,
      network_items = None\<rparr>"

definition psi_bad_key :: "psi_request \<Rightarrow> psi_fetch" where
  "psi_bad_key rq =
     (if rq_key rq \<noteq> None then PsiResponse 400 (Inr bad_key_json) else psi_up rq)"

text \<open>The request that the library's client sends for the sample page.\<close>

definition sample_request :: "string option \<Rightarrow> psi_request" where
  "sample_request k =
     \<lparr>rq_url = ''https://example.com/'', rq_strategy = ''mobile'',
      rq_categories = [''performance'', ''seo'', ''best-practices'', ''accessibility''],
      rq_key = k\<rparr>"


section \<open>Results about the library\<close>

subsection \<open>Auxiliary facts\<close>

lemma analyzeSite_Inr:
  "analyzeSite e inputUrl = Inr r \<Longrightarrow>
     \<exists>u page. normalizeUrl (newURL e) inputUrl = Inr u \<and> fetchHtml (fetchPage e) u = Inr page
       \<and> r = analyzeFetched e inputUrl page"
  by (auto simp: analyzeSite_def split: sum.splits)

lemma sample_normalize: "normalizeUrl sample_newURL ''example.com'' = Inr ''https://example.com/''"
  by code_simp

lemma sample_fetch: "fetchHtml (\<lambda>_. sample_page) u = Inr sample_fetched"
  by (simp add: fetchHtml_def sample_page_def sample_fetched_def orEmpty_def)

lemma sample_run:
  "analyzeSite (sample_env sample_page ps) ''example.com''
     = Inr (analyzeFetched (sample_env sample_page ps) ''example.com'' sample_fetched)"
  by (simp add: analyzeSite_def sample_env_def sample_normalize sample_fetch)

lemma issues_analyzeFetched:
  "issues (analyzeFetched e i page)
     = sortBySeverity (snd (seoChecks (cheerioLoad e (html page)))
         @ trustIssuesOf (findTrustLinks (cheerioLoad e (html page)))
         @ uxIssuesOf (hasPrimaryCta (cheerioLoad e (html page))))"
  by (simp add: analyzeFetched_def Let_def split: prod.split)

lemma severity_eq_rank: "(severityRank a = severityRank b) = (a = b)"
  by (cases a; cases b) (simp_all add: severityRank_def)

lemma sorted_sortBySeverity:
  "sorted (map (\<lambda>i. severityRank (severity i)) (sortBySeverity xs))"
  unfolding sortBySeverity_def by (rule sorted_sort_key)

lemma stable_sortBySeverity:
  "filter (\<lambda>i. severity i = s) (sortBySeverity xs) = filter (\<lambda>i. severity i = s) xs"
proof -
  have "filter (\<lambda>i. severityRank (severity i) = severityRank s) (sortBySeverity xs)
        = filter (\<lambda>i. severityRank (severity i) = severityRank s) xs"
    unfolding sortBySeverity_def by (rule sort_key_stable)
  then show ?thesis by (simp add: severity_eq_rank)
qed

subsection \<open>Order of the issue list\<close>

text \<open>
  Claim C6. In every report of \<^verbatim>\<open>analyzeSite\<close> the issue list is sorted by ascending
  severity rank, where critical < high < medium < low, and issues of equal severity keep
  their order of discovery: for each severity, the issues of that severity are those found
  by the SEO checks, followed by those of the trust checks, followed by those of the UX
  check, each group in the order in which it was produced.
\<close>

theorem issues_sorted_stable:
  "analyzeSite e inputUrl = Inr r \<Longrightarrow>
     severityRank critical < severityRank high \<and> severityRank high < severityRank medium
     \<and> severityRank medium < severityRank low
     \<and> sorted (map (\<lambda>i. severityRank (severity i)) (issues r))
     \<and> (\<exists>u page. normalizeUrl (newURL e) inputUrl = Inr u
          \<and> fetchHtml (fetchPage e) u = Inr page
          \<and> (\<forall>s. filter (\<lambda>i. severity i = s) (issues r)
                 = filter (\<lambda>i. severity i = s) (snd (seoChecks (cheerioLoad e (html page))))
                 @ filter (\<lambda>i. severity i = s)
                     (trustIssuesOf (findTrustLinks (cheerioLoad e (html page))))
                 @ filter (\<lambda>i. severity i = s)
                     (uxIssuesOf (hasPrimaryCta (cheerioLoad e (html page))))))"
proof -
  assume a: "analyzeSite e inputUrl = Inr r"
  from analyzeSite_Inr [OF a] obtain u page where
    n: "normalizeUrl (newURL e) inputUrl = Inr u" and f: "fetchHtml (fetchPage e) u = Inr page"
    and r: "r = analyzeFetched e inputUrl page" by blast
  have s: "sorted (map (\<lambda>i. severityRank (severity i)) (issues r))"
    by (simp only: r issues_analyzeFetched sorted_sortBySeverity)
  have t: "\<forall>s. filter (\<lambda>i. severity i = s) (issues r)
                 = filter (\<lambda>i. severity i = s) (snd (seoChecks (cheerioLoad e (html page))))
                 @ filter (\<lambda>i. severity i = s)
                     (trustIssuesOf (findTrustLinks (cheerioLoad e (html page))))
                 @ filter (\<lambda>i. severity i = s)
                     (uxIssuesOf (hasPrimaryCta (cheerioLoad e (html page))))"
    by (simp add: r issues_analyzeFetched stable_sortBySeverity)
  have o: "severityRank critical < severityRank high \<and> severityRank high < severityRank medium
     \<and> severityRank medium < severityRank low"
    by (simp add: severityRank_def)
  from o s n f t show ?thesis by blast
qed

theorem issues_sorted_stable_witness:
  "analyzeSite (sample_env sample_page psi_down) ''example.com''
     = Inr (analyzeFetched (sample_env sample_page psi_down) ''example.com'' sample_fetched)
   \<and> sorted (map (\<lambda>i. severityRank (severity i))
        (issues (analyzeFetched (sample_env sample_page psi_down) ''example.com'' sample_fetched)))"
  using issues_sorted_stable [OF sample_run [of psi_down]] sample_run [of psi_down] by simp

subsection \<open>Double-precision arithmetic\<close>

lemma roundEven_le: "of_int (roundEven y) \<le> y + 1 / 2"
proof -
  have a: "of_int \<lfloor>y\<rfloor> \<le> y" by simp
  have b: "y < of_int \<lfloor>y\<rfloor> + 1" by linarith
  show ?thesis
    unfolding roundEven_def Let_def using a b by (simp only: split: if_split) linarith
qed

lemma roundEven_ge: "y - 1 / 2 \<le> of_int (roundEven y)"
proof -
  have a: "of_int \<lfloor>y\<rfloor> \<le> y" by simp
  have b: "y < of_int \<lfloor>y\<rfloor> + 1" by linarith
  show ?thesis
    unfolding roundEven_def Let_def using a b by (simp only: split: if_split) linarith
qed

lemma roundEven_nonneg: "0 \<le> y \<Longrightarrow> 0 \<le> roundEven y"
proof -
  assume "0 \<le> y"
  then have "0 \<le> \<lfloor>y\<rfloor>" by simp
  then show ?thesis by (auto simp: roundEven_def Let_def)
qed

lemma pos_quotient:
  assumes "0 < x" and q: "quotient_of x = (n, d)"
  shows "0 < n \<and> 0 < d \<and> x = of_int n / of_int d"
proof -
  from q have d: "0 < d" by (rule quotient_of_denom_pos)
  from q have x: "x = of_int n / of_int d" by (rule quotient_of_div)
  from assms(1) d x have "0 < n" by (simp add: zero_less_divide_iff)
  with d x show ?thesis by simp
qed

lemma expo_le:
  assumes "0 < x"
  shows "2 powi expo x \<le> x"
proof -
  obtain n d where q: "quotient_of x = (n, d)" by (cases "quotient_of x")
  from pos_quotient [OF assms q] have n: "0 < n" and d: "0 < d" and x: "x = of_int n / of_int d"
    by simp_all
  define k where "k = bitlen n - bitlen d"
  show ?thesis
  proof (cases "2 powi k \<le> x")
    case True
    then show ?thesis by (simp add: expo_def q k_def)
  next
    case False
    then have e: "expo x = k - 1" by (simp add: expo_def q k_def)
    from bitlen_bounds [OF n] have ln: "(2::int) ^ nat (bitlen n - 1) \<le> n" by simp
    from bitlen_bounds [OF d] have ud: "d < (2::int) ^ nat (bitlen d)" by simp
    from n have bn: "1 \<le> bitlen n" by (simp add: bitlen_def floorlog_def)
    from d have bd: "0 \<le> bitlen d" by (simp add: bitlen_def)
    have a: "(2::rat) powi (bitlen n - 1) \<le> of_int n"
    proof -
      have "(2::rat) powi (bitlen n - 1) = 2 ^ nat (bitlen n - 1)"
        using bn by (simp add: power_int_def)
      also have "\<dots> = of_int (2 ^ nat (bitlen n - 1))" by simp
      also have "\<dots> \<le> of_int n" using ln by (simp only: of_int_le_iff)
      finally show ?thesis .
    qed
    have b: "of_int d \<le> (2::rat) powi (bitlen d)"
    proof -
      from ud have "d \<le> 2 ^ nat (bitlen d)" by simp
      then have "(of_int d :: rat) \<le> of_int (2 ^ nat (bitlen d))" by (simp only: of_int_le_iff)
      also have "\<dots> = 2 powi (bitlen d)" using bd by (simp add: power_int_def)
      finally show ?thesis .
    qed
    have "(2::rat) powi (k - 1) = 2 powi (bitlen n - 1) / 2 powi (bitlen d)"
      by (simp add: k_def power_int_diff)
    also have "\<dots> \<le> of_int n / 2 powi (bitlen d)"
      using a by (simp add: divide_right_mono)
    also have "\<dots> \<le> of_int n / of_int d"
      using b n d by (simp add: frac_le)
    finally have "(2::rat) powi (k - 1) \<le> of_int n / of_int d" .
    then have "2 powi (k - 1) \<le> x" by (subst x)
    then show ?thesis by (simp only: e)
  qed
qed

lemma fl_nonneg: "0 \<le> x \<Longrightarrow> 0 \<le> fl x"
  by (auto simp: fl_def Let_def intro!: mult_nonneg_nonneg roundEven_nonneg divide_nonneg_nonneg)

lemma fl_upper:
  assumes "0 \<le> x"
  shows "fl x \<le> x * (1 + 1 / 2 ^ 53)"
proof (cases "x = 0")
  case True
  then show ?thesis by (simp add: fl_def)
next
  case False
  with assms have p: "0 < x" by simp
  define ulp :: rat where "ulp = 2 powi (expo x - 52)"
  have up: "0 < ulp" by (simp add: ulp_def)
  have u: "ulp = 2 powi expo x / 2 ^ 52"
    by (simp add: ulp_def power_int_diff)
  have f: "fl x = of_int (roundEven (x / ulp)) * ulp"
    using p by (simp add: fl_def Let_def ulp_def)
  have "of_int (roundEven (x / ulp)) * ulp \<le> (x / ulp + 1 / 2) * ulp"
    using roundEven_le [of "x / ulp"] up by (simp only: mult_right_mono less_imp_le)
  also have "\<dots> = x + ulp / 2" using up by (simp add: field_simps)
  also have "\<dots> \<le> x + (x / 2 ^ 52) / 2"
    using expo_le [OF p] by (simp add: u divide_right_mono)
  also have "\<dots> = x * (1 + 1 / 2 ^ 53)" by (simp add: field_simps)
  finally show ?thesis by (simp add: f)
qed

lemma expo_gt:
  assumes "0 < x"
  shows "x < 2 powi (expo x + 1)"
proof -
  obtain n d where q: "quotient_of x = (n, d)" by (cases "quotient_of x")
  from pos_quotient [OF assms q] have n: "0 < n" and d: "0 < d" and x: "x = of_int n / of_int d"
    by simp_all
  define k where "k = bitlen n - bitlen d"
  show ?thesis
  proof (cases "2 powi k \<le> x")
    case False
    then have e: "expo x = k - 1" by (simp add: expo_def q k_def)
    from False show ?thesis by (simp add: e)
  next
    case True
    then have e: "expo x = k" by (simp add: expo_def q k_def)
    from bitlen_bounds [OF n] have un: "n < (2::int) ^ nat (bitlen n)" by simp
    from bitlen_bounds [OF d] have ld: "(2::int) ^ nat (bitlen d - 1) \<le> d" by simp
    from n have bn: "0 \<le> bitlen n" by (simp add: bitlen_def)
    from d have bd: "1 \<le> bitlen d" by (simp add: bitlen_def floorlog_def)
    have a: "of_int n < (2::rat) powi (bitlen n)"
    proof -
      have "(of_int n :: rat) < of_int (2 ^ nat (bitlen n))" using un by (simp only: of_int_less_iff)
      also have "\<dots> = 2 powi (bitlen n)" using bn by (simp add: power_int_def)
      finally show ?thesis .
    qed
    have b: "(2::rat) powi (bitlen d - 1) \<le> of_int d"
    proof -
      have "(2::rat) powi (bitlen d - 1) = of_int (2 ^ nat (bitlen d - 1))"
        using bd by (simp add: power_int_def)
      also have "\<dots> \<le> of_int d" using ld by (simp only: of_int_le_iff)
      finally show ?thesis .
    qed
    have p: "(0::rat) < 2 powi (bitlen d - 1)" by simp
    have "of_int n / of_int d \<le> of_int n / (2::rat) powi (bitlen d - 1)"
      using b n p by (simp add: frac_le)
    also have "\<dots> < 2 powi (bitlen n) / 2 powi (bitlen d - 1)"
      using a p by (simp add: divide_strict_right_mono)
    also have "\<dots> = 2 powi (k + 1)"
      by (simp add: k_def power_int_diff power_int_add field_simps)
    finally have "of_int n / of_int d < (2::rat) powi (k + 1)" .
    then have "x < 2 powi (k + 1)" by (subst x)
    then show ?thesis by (simp only: e)
  qed
qed

lemma fl_bound: "0 \<le> x \<Longrightarrow> x \<le> b \<Longrightarrow> 0 \<le> fl x \<and> fl x \<le> b * (1 + 1 / 2 ^ 53)"
proof -
  assume x: "0 \<le> x" and b: "x \<le> b"
  have "x * (1 + 1 / 2 ^ 53) \<le> b * (1 + 1 / 2 ^ 53)"
    using b by (rule mult_right_mono) simp
  with fl_upper [OF x] fl_nonneg [OF x] show ?thesis by simp
qed

lemma term_bound:
  assumes a: "0 \<le> a" and x: "0 \<le> x" "x \<le> 100"
  shows "0 \<le> fmul (fl a) (of_int x)
       \<and> fmul (fl a) (of_int x) \<le> a * 100 * (1 + 1 / 2 ^ 53) * (1 + 1 / 2 ^ 53)"
proof -
  from fl_bound [OF a order_refl] have f: "0 \<le> fl a" "fl a \<le> a * (1 + 1 / 2 ^ 53)" by simp_all
  from x have r: "(0::rat) \<le> of_int x" "(of_int x :: rat) \<le> 100" by simp_all
  have p0: "0 \<le> fl a * of_int x" using f(1) r(1) by (rule mult_nonneg_nonneg)
  have "fl a * of_int x \<le> (a * (1 + 1 / 2 ^ 53)) * 100"
    by (rule mult_mono [OF f(2) r(2)]) (use a r in simp_all)
  then have p1: "fl a * of_int x \<le> a * 100 * (1 + 1 / 2 ^ 53)" by (simp add: mult_ac)
  from fl_bound [OF p0 p1] show ?thesis by (simp add: fmul_def)
qed

lemma sum_bound:
  assumes "0 \<le> p" "p \<le> P" "0 \<le> q" "q \<le> Q"
  shows "0 \<le> fadd p q \<and> fadd p q \<le> (P + Q) * (1 + 1 / 2 ^ 53)"
proof -
  from assms have "0 \<le> p + q" "p + q \<le> P + Q" by simp_all
  from fl_bound [OF this] show ?thesis by (simp add: fadd_def)
qed

lemma js_round_range:
  "0 \<le> x \<Longrightarrow> x < 100 + 1 / 2 \<Longrightarrow> 0 \<le> js_round x \<and> js_round x \<le> 100"
  unfolding js_round_def by (simp add: le_floor_iff floor_le_iff)

lemma weighted4_range:
  assumes w: "0 \<le> a" "0 \<le> b" "0 \<le> c" "0 \<le> d" "a + b + c + d \<le> 1"
    and v: "0 \<le> x \<and> x \<le> 100" "0 \<le> y \<and> y \<le> 100" "0 \<le> z \<and> z \<le> 100"
           "0 \<le> u \<and> u \<le> 100"
  shows "0 \<le> js_round (weighted4 a x b y c z d u) \<and> js_round (weighted4 a x b y c z d u) \<le> 100"
proof -
  define D :: rat where "D = 1 + 1 / 2 ^ 53"
  note t1 = term_bound [OF w(1) v(1) [THEN conjunct1] v(1) [THEN conjunct2], folded D_def]
  note t2 = term_bound [OF w(2) v(2) [THEN conjunct1] v(2) [THEN conjunct2], folded D_def]
  note t3 = term_bound [OF w(3) v(3) [THEN conjunct1] v(3) [THEN conjunct2], folded D_def]
  note t4 = term_bound [OF w(4) v(4) [THEN conjunct1] v(4) [THEN conjunct2], folded D_def]
  note s1 = sum_bound [OF t1 [THEN conjunct1] t1 [THEN conjunct2] t2 [THEN conjunct1]
      t2 [THEN conjunct2], folded D_def]
  note s2 = sum_bound [OF s1 [THEN conjunct1] s1 [THEN conjunct2] t3 [THEN conjunct1]
      t3 [THEN conjunct2], folded D_def]
  note s3 = sum_bound [OF s2 [THEN conjunct1] s2 [THEN conjunct2] t4 [THEN conjunct1]
      t4 [THEN conjunct2], folded D_def]
  have D1: "1 \<le> D" by (simp add: D_def)
  have "D ^ 5 \<le> (10001 / 10000) ^ 5"
    by (rule power_mono) (simp_all add: D_def)
  moreover have "((10001 / 10000) ^ 5 :: rat) * 100 < 100 + 1 / 2"
    by (simp add: power_divide)
  ultimately have Dp: "D ^ 5 * 100 < 100 + 1 / 2" by simp
  have mono: "r * D ^ i \<le> r * D ^ 5" if "0 \<le> r" "i \<le> 5" for r :: rat and i :: nat
    using that D1 by (simp add: mult_left_mono power_increasing)
  have "((a * 100 * D * D + b * 100 * D * D) * D + c * 100 * D * D) * D + d * 100 * D * D
      = a * 100 * D ^ 4 + b * 100 * D ^ 4 + c * 100 * D ^ 3 + d * 100 * D ^ 2"
    by (simp add: power_numeral_reduce algebra_simps eval_nat_numeral)
  then have "(((a * 100 * D * D + b * 100 * D * D) * D + c * 100 * D * D) * D + d * 100 * D * D) * D
      = (a * 100) * D ^ 5 + (b * 100) * D ^ 5 + (c * 100) * D ^ 4 + (d * 100) * D ^ 3"
    by (simp add: algebra_simps eval_nat_numeral)
  also have "\<dots> \<le> (a * 100) * D ^ 5 + (b * 100) * D ^ 5 + (c * 100) * D ^ 5 + (d * 100) * D ^ 5"
    using mono [of "c * 100" 4] mono [of "d * 100" 3] w by simp
  also have "\<dots> = (a + b + c + d) * (D ^ 5 * 100)" by (simp add: algebra_simps)
  also have "\<dots> \<le> 1 * (D ^ 5 * 100)"
    using w(5) by (rule mult_right_mono) (use D1 in simp)
  finally have "(((a * 100 * D * D + b * 100 * D * D) * D + c * 100 * D * D) * D + d * 100 * D * D) * D
      < 100 + 1 / 2" using Dp by simp
  with s3 have "0 \<le> weighted4 a x b y c z d u \<and> weighted4 a x b y c z d u < 100 + 1 / 2"
    by (simp add: weighted4_def)
  then show ?thesis using js_round_range by blast
qed

lemma weighted3_range:
  assumes w: "0 \<le> a" "0 \<le> b" "0 \<le> c" "a + b + c \<le> 1"
    and v: "0 \<le> x \<and> x \<le> 100" "0 \<le> y \<and> y \<le> 100" "0 \<le> z \<and> z \<le> 100"
  shows "0 \<le> js_round (weighted3 a x b y c z) \<and> js_round (weighted3 a x b y c z) \<le> 100"
proof -
  define D :: rat where "D = 1 + 1 / 2 ^ 53"
  note t1 = term_bound [OF w(1) v(1) [THEN conjunct1] v(1) [THEN conjunct2], folded D_def]
  note t2 = term_bound [OF w(2) v(2) [THEN conjunct1] v(2) [THEN conjunct2], folded D_def]
  note t3 = term_bound [OF w(3) v(3) [THEN conjunct1] v(3) [THEN conjunct2], folded D_def]
  note s1 = sum_bound [OF t1 [THEN conjunct1] t1 [THEN conjunct2] t2 [THEN conjunct1]
      t2 [THEN conjunct2], folded D_def]
  note s2 = sum_bound [OF s1 [THEN conjunct1] s1 [THEN conjunct2] t3 [THEN conjunct1]
      t3 [THEN conjunct2], folded D_def]
  have D1: "1 \<le> D" by (simp add: D_def)
  have "D ^ 4 \<le> (10001 / 10000) ^ 4"
    by (rule power_mono) (simp_all add: D_def)
  moreover have "((10001 / 10000) ^ 4 :: rat) * 100 < 100 + 1 / 2"
    by (simp add: power_divide)
  ultimately have Dp: "D ^ 4 * 100 < 100 + 1 / 2" by simp
  have mono: "r * D ^ i \<le> r * D ^ 4" if "0 \<le> r" "i \<le> 4" for r :: rat and i :: nat
    using that D1 by (simp add: mult_left_mono power_increasing)
  have "((a * 100 * D * D + b * 100 * D * D) * D + c * 100 * D * D) * D
      = (a * 100) * D ^ 4 + (b * 100) * D ^ 4 + (c * 100) * D ^ 3"
    by (simp add: algebra_simps eval_nat_numeral)
  also have "\<dots> \<le> (a * 100) * D ^ 4 + (b * 100) * D ^ 4 + (c * 100) * D ^ 4"
    using mono [of "c * 100" 3] w by simp
  also have "\<dots> = (a + b + c) * (D ^ 4 * 100)" by (simp add: algebra_simps)
  also have "\<dots> \<le> 1 * (D ^ 4 * 100)"
    using w(4) by (rule mult_right_mono) (use D1 in simp)
  finally have "((a * 100 * D * D + b * 100 * D * D) * D + c * 100 * D * D) * D < 100 + 1 / 2"
    using Dp by simp
  with s2 have "0 \<le> weighted3 a x b y c z \<and> weighted3 a x b y c z < 100 + 1 / 2"
    by (simp add: weighted3_def)
  then show ?thesis using js_round_range by blast
qed

lemma percent_of_unit:
  assumes "0 \<le> x" "x \<le> 1"
  shows "0 \<le> js_round (fmul (fl x) 100) \<and> js_round (fmul (fl x) 100) \<le> 100"
proof -
  from fl_bound [OF assms] have f: "0 \<le> fl x" "fl x \<le> 1 + 1 / 2 ^ 53" by simp_all
  then have "0 \<le> fl x * 100" "fl x * 100 \<le> (1 + 1 / 2 ^ 53) * 100" by simp_all
  from fl_bound [OF this]
  have "0 \<le> fmul (fl x) 100 \<and> fmul (fl x) 100 \<le> (1 + 1 / 2 ^ 53) * 100 * (1 + 1 / 2 ^ 53)"
    by (simp add: fmul_def)
  moreover have "(1 + 1 / 2 ^ 53) * 100 * (1 + 1 / 2 ^ 53) < (100 + 1 / 2 :: rat)" by simp
  ultimately have "0 \<le> fmul (fl x) 100 \<and> fmul (fl x) 100 < 100 + 1 / 2" by simp
  then show ?thesis using js_round_range by blast
qed

lemma fl_zero: "fl 0 = 0"
  by (simp add: fl_def)

lemma fmul_zero_right: "fmul x 0 = 0"
  by (simp add: fmul_def fl_zero)

lemma js_round_zero: "js_round 0 = 0"
  by code_simp

text \<open>
  The rounding is that of the platform on sample values, and it matters: for the scores
  0, 92, 23 and 62 the exact weighted sum is 41.5, which rounds to 42, but the sum computed in
  doubles lies just below 41.5, so that the code's total is 41.
\<close>

lemma fl_samples:
  "fl 0.35 = 3152519739159347 / 9007199254740992"
  "fl (1 / 3) = 6004799503160661 / 18014398509481984"
  "fl 100 = 100"
  "fl 9007199254740993 = 9007199254740992"
  "fl 9007199254740995 = 9007199254740996"
  by code_simp+

lemma double_rounding_at_tie:
  "js_round (weighted4 0.35 0 0.3 92 0.2 23 0.15 62) = 41"
  "\<lfloor>(0.35 * 0 + 0.3 * 92 + 0.2 * 23 + 0.15 * 62 :: rat) + 1 / 2\<rfloor> = 42"
  by code_simp+

subsection \<open>Range of the scores\<close>

lemma foldl_penalty:
  "foldl (\<lambda>score it. score - penalty (severity it)) a xs = a - sum_list (map (\<lambda>i. penalty (severity i)) xs)"
  by (induction xs arbitrary: a) simp_all

lemma scoreFromIssues_sum:
  "scoreFromIssues xs = max 0 (min 100 (100 - sum_list (map (\<lambda>i. penalty (severity i)) xs)))"
  by (simp add: scoreFromIssues_def foldl_penalty)

lemma scoreFromIssues_range: "0 \<le> scoreFromIssues xs \<and> scoreFromIssues xs \<le> 100"
  by (simp add: scoreFromIssues_def)

lemma percent_None: "percent None = 0"
  by (simp add: percent_def fmul_def fl_zero js_round_zero)

lemma percent_Some: "percent (Some x) = js_round (fmul (fl x) 100)"
  by (simp add: percent_def)

lemma percent_range:
  "(\<And>x. sc = Some x \<Longrightarrow> 0 \<le> x \<and> x \<le> 1) \<Longrightarrow> 0 \<le> percent sc \<and> percent sc \<le> 100"
  by (cases sc) (simp_all add: percent_None percent_Some percent_of_unit)

lemma scores_analyzeFetched:
  "scores (analyzeFetched e i page) =
     (let d = cheerioLoad e (html page);
          trustScore = scoreFromIssues (trustIssuesOf (findTrustLinks d));
          uxScore = scoreFromIssues (uxIssuesOf (hasPrimaryCta d))
      in case psiOf e page of
           PsiData dat \<Rightarrow>
             \<lparr>total = js_round (weighted4 0.35 (ps_performance (data_scores dat)) 0.3
                                         uxScore 0.2 (ps_seo (data_scores dat)) 0.15
                                         trustScore),
              performance = Some (ps_performance (data_scores dat)),
              seo = ps_seo (data_scores dat), ux = uxScore, trust = trustScore\<rparr>
         | PsiError m \<Rightarrow>
             \<lparr>total = js_round (weighted3 0.4 (scoreFromIssues (snd (seoChecks d)))
                                         0.35 uxScore 0.25 trustScore),
              performance = None,
              seo = scoreFromIssues (snd (seoChecks d)), ux = uxScore, trust = trustScore\<rparr>)"
  by (simp add: analyzeFetched_def psiOf_def Let_def split: prod.split sum.split)

lemma pagespeed_analyzeFetched: "pagespeed (analyzeFetched e i page) = psiOf e page"
  by (simp add: analyzeFetched_def psiOf_def Let_def split: prod.split sum.split)

lemma psiOf_data_range:
  assumes u: "unitScores e" and d: "psiOf e page = PsiData dat"
  shows "0 \<le> ps_performance (data_scores dat) \<and> ps_performance (data_scores dat) \<le> 100
       \<and> 0 \<le> ps_seo (data_scores dat) \<and> ps_seo (data_scores dat) \<le> 100"
proof -
  from d obtain rq st j where f: "fetchPsi e rq = PsiResponse st (Inr j)"
    and p: "ps_performance (data_scores dat) = percent (category_score j ''performance'')"
    and s: "ps_seo (data_scores dat) = percent (category_score j ''seo'')"
    by (auto simp: psiOf_def runPageSpeed_def Let_def split: sum.splits psi_fetch.splits if_splits)
  from u f have "\<And>c x. category_score j c = Some x \<Longrightarrow> 0 \<le> x \<and> x \<le> 1"
    unfolding unitScores_def by blast
  then show ?thesis
    using percent_range [of "category_score j ''performance''"] percent_range [of "category_score j ''seo''"]
    by (simp add: p s)
qed

lemma sample_unitScores: "unitScores (sample_env pg psi_up)"
  by (simp add: unitScores_def sample_env_def psi_up_def up_json_def sample_json_def
      split: if_splits)

lemma sample_scores_up:
  "scores (analyzeFetched (sample_env sample_page psi_up) ''example.com'' sample_fetched)
     = \<lparr>total = 82, performance = Some 90, seo = 80, ux = 92, trust = 44\<rparr>"
  by code_simp

lemma sample_scores_over:
  "scores (analyzeFetched (sample_env sample_page psi_over) ''example.com'' sample_fetched)
     = \<lparr>total = 117, performance = Some 150, seo = 150, ux = 92, trust = 44\<rparr>"
  by code_simp

lemma sample_not_unitScores: "\<not> unitScores (sample_env pg psi_over)"
proof
  assume "unitScores (sample_env pg psi_over)"
  then have "\<And>rq st j c x. fetchPsi (sample_env pg psi_over) rq = PsiResponse st (Inr j)
      \<and> category_score j c = Some x \<Longrightarrow> 0 \<le> x \<and> x \<le> 1"
    unfolding unitScores_def by blast
  from this [of "sample_request None" 200 over_json "''performance''" "3 / 2"]
  show False
    by (simp add: sample_env_def psi_over_def over_json_def sample_json_def)
qed

text \<open>
  Claim C7, as stated for every analysis, fails on the scores that \<^verbatim>\<open>analyzeSite\<close> takes over
  from PageSpeed: they are \<^verbatim>\<open>Math.round(score * 100)\<close> with no clamp, and the total is a
  weighted sum of them with no clamp either. When the API answers with category scores of
  1.5 for performance and SEO, the report has the performance score 150, the SEO score 150
  and the total 117.
\<close>

theorem scores_in_range_counterexample:
  "fetchPsi (sample_env sample_page psi_over) (sample_request (Some ''secret''))
     = PsiResponse 200 (Inr over_json)
   \<and> category_score over_json ''performance'' = Some 1.5
   \<and> category_score over_json ''seo'' = Some 1.5
   \<and> \<not> unitScores (sample_env sample_page psi_over)
   \<and> analyzeSite (sample_env sample_page psi_over) ''example.com''
     = Inr (analyzeFetched (sample_env sample_page psi_over) ''example.com'' sample_fetched)
   \<and> scores (analyzeFetched (sample_env sample_page psi_over) ''example.com'' sample_fetched)
     = \<lparr>total = 117, performance = Some 150, seo = 150, ux = 92, trust = 44\<rparr>"
proof -
  have 1: "fetchPsi (sample_env sample_page psi_over) (sample_request (Some ''secret''))
     = PsiResponse 200 (Inr over_json)"
    by (simp add: sample_env_def psi_over_def)
  have 2: "category_score over_json ''performance'' = Some 1.5"
    and 3: "category_score over_json ''seo'' = Some 1.5"
    by (simp_all add: over_json_def sample_json_def)
  from 1 2 3 sample_not_unitScores [of sample_page] sample_run [of psi_over] sample_scores_over
  show ?thesis by simp
qed

text \<open>
  Claim C7, amended. The penalty formula subtracts 25, 15, 8 and 3 per critical, high, medium and
  low issue from 100 and is clamped to the interval from 0 to 100. In every report of
  \<^verbatim>\<open>analyzeSite\<close> the UX and trust scores lie in that interval; so do the SEO score, the
  performance score when present and the total, whenever the PageSpeed call failed or the
  API kept its contract of category scores between 0 and 1; the scores taken over from
  PageSpeed are not clamped by the code. The total is the weighted sum as the code computes
  it, in double precision.
\<close>

theorem scores_in_range:
  "analyzeSite e inputUrl = Inr r \<Longrightarrow>
     penalty critical = 25 \<and> penalty high = 15 \<and> penalty medium = 8 \<and> penalty low = 3
     \<and> (\<forall>xs. scoreFromIssues xs
               = max 0 (min 100 (100 - sum_list (map (\<lambda>i. penalty (severity i)) xs))))
     \<and> 0 \<le> ux (scores r) \<and> ux (scores r) \<le> 100
     \<and> 0 \<le> trust (scores r) \<and> trust (scores r) \<le> 100
     \<and> ((\<exists>m. pagespeed r = PsiError m) \<or> unitScores e \<longrightarrow>
          0 \<le> seo (scores r) \<and> seo (scores r) \<le> 100
          \<and> 0 \<le> total (scores r) \<and> total (scores r) \<le> 100
          \<and> (\<forall>p. performance (scores r) = Some p \<longrightarrow> 0 \<le> p \<and> p \<le> 100))"
proof -
  assume a: "analyzeSite e inputUrl = Inr r"
  from analyzeSite_Inr [OF a] obtain page where
    r: "r = analyzeFetched e inputUrl page" by blast
  define d where "d = cheerioLoad e (html page)"
  define t where "t = scoreFromIssues (trustIssuesOf (findTrustLinks d))"
  define x where "x = scoreFromIssues (uxIssuesOf (hasPrimaryCta d))"
  define q where "q = scoreFromIssues (snd (seoChecks d))"
  have tr: "0 \<le> t \<and> t \<le> 100" and xr: "0 \<le> x \<and> x \<le> 100" and qr: "0 \<le> q \<and> q \<le> 100"
    by (simp_all add: t_def x_def q_def scoreFromIssues_range)
  have pen: "penalty critical = 25 \<and> penalty high = 15 \<and> penalty medium = 8 \<and> penalty low = 3"
    by (simp add: penalty_def)
  have ux: "ux (scores r) = x" and trust: "trust (scores r) = t"
    by (simp_all add: r scores_analyzeFetched Let_def x_def t_def d_def split: pagespeed.split)
  have rest: "0 \<le> seo (scores r) \<and> seo (scores r) \<le> 100
          \<and> 0 \<le> total (scores r) \<and> total (scores r) \<le> 100
          \<and> (\<forall>p. performance (scores r) = Some p \<longrightarrow> 0 \<le> p \<and> p \<le> 100)"
    if h: "(\<exists>m. pagespeed r = PsiError m) \<or> unitScores e"
  proof (cases "psiOf e page")
    case (PsiError m)
    then have "scores r = \<lparr>total = js_round (weighted3 0.4 q 0.35 x 0.25 t),
                 performance = None, seo = q, ux = x, trust = t\<rparr>"
      by (simp add: r scores_analyzeFetched Let_def x_def t_def q_def d_def)
    then show ?thesis using weighted3_range [of "0.4" "0.35" "0.25" q x t] xr qr tr by simp
  next
    case (PsiData dat)
    with h have us: "unitScores e" by (simp add: r pagespeed_analyzeFetched)
    define p where "p = ps_performance (data_scores dat)"
    define s where "s = ps_seo (data_scores dat)"
    from psiOf_data_range [OF us PsiData] have pr: "0 \<le> p \<and> p \<le> 100" and sr: "0 \<le> s \<and> s \<le> 100"
      by (simp_all add: p_def s_def)
    from PsiData have "scores r = \<lparr>total = js_round (weighted4 0.35 p 0.3 x 0.2 s
                                                              0.15 t),
                 performance = Some p, seo = s, ux = x, trust = t\<rparr>"
      by (simp add: r scores_analyzeFetched Let_def x_def t_def p_def s_def d_def)
    then show ?thesis using weighted4_range [of "0.35" "0.3" "0.2" "0.15" p x s t] pr xr sr tr by simp
  qed
  from pen scoreFromIssues_sum ux trust xr tr rest show ?thesis by blast
qed

theorem scores_in_range_witness:
  "analyzeSite (sample_env sample_page psi_up) ''example.com''
     = Inr (analyzeFetched (sample_env sample_page psi_up) ''example.com'' sample_fetched)
   \<and> unitScores (sample_env sample_page psi_up)
   \<and> scores (analyzeFetched (sample_env sample_page psi_up) ''example.com'' sample_fetched)
       = \<lparr>total = 82, performance = Some 90, seo = 80, ux = 92, trust = 44\<rparr>"
  using scores_in_range [OF sample_run [of psi_up]] sample_run [of psi_up] sample_unitScores sample_scores_up
  by simp

subsection \<open>The total score\<close>

lemma POST_ReportReply:
  "POST e req = ReportReply rr \<Longrightarrow>
     \<exists>dmn ur inputUrl. req = Body dmn ur \<and> normalizeUrl_route (inputRaw dmn ur) = Some inputUrl
        \<and> rr = POST_report e inputUrl"
  by (auto simp: POST_def split: request_body.splits option.splits)

lemma rt_scores_POST_report:
  "rt_scores (POST_report e i) =
     (let h = fst (retrieve (rt_fetchPage e) i);
          perf = (case psRoute e i of AttemptOk j \<Rightarrow> score_route j ''performance''
                  | AttemptFailed _ _ \<Rightarrow> None);
          seoS = (case psRoute e i of AttemptOk j \<Rightarrow> score_route j ''seo''
                  | AttemptFailed _ _ \<Rightarrow> None);
          uxS = (if hasCTA h then 100 else 92);
          trustS = computeTrustScore (trustOf h)
      in \<lparr>rt_total = (case (perf, seoS) of
                         (Some p, Some q) \<Rightarrow> Some (weightedTotal p q uxS trustS)
                       | _ \<Rightarrow> None),
          rt_performance = perf, rt_seo = seoS, rt_ux = uxS, rt_trust = trustS\<rparr>)"
proof -
  obtain h st fu where ret: "retrieve (rt_fetchPage e) i = (h, st, fu)"
    by (metis prod_cases3)
  show ?thesis
    by (cases "psRoute e i")
       (simp_all add: POST_report_def psRoute_def ret Let_def cong: option.case_cong)
qed

lemma scores_POST_report:
  "rt_total (rt_scores (POST_report e i))
     = (case (rt_performance (rt_scores (POST_report e i)), rt_seo (rt_scores (POST_report e i))) of
          (Some p, Some q) \<Rightarrow>
            Some (js_round (weighted4 0.35 p 0.25 q 0.2
                              (rt_ux (rt_scores (POST_report e i))) 0.2
                              (rt_trust (rt_scores (POST_report e i)))))
        | _ \<Rightarrow> None)"
  unfolding rt_scores_POST_report
  by (simp add: Let_def weightedTotal_def split: option.split)

lemma performance_None_iff:
  "(performance (scores (analyzeFetched e i page)) = None) = (\<exists>m. pagespeed (analyzeFetched e i page) = PsiError m)"
  by (simp add: scores_analyzeFetched pagespeed_analyzeFetched Let_def split: pagespeed.split)

lemma total_analyzeFetched:
  "total (scores (analyzeFetched e i page))
    = (case performance (scores (analyzeFetched e i page)) of
         Some p \<Rightarrow> js_round (weighted4 0.35 p 0.3
                                          (ux (scores (analyzeFetched e i page))) 0.2
                                          (seo (scores (analyzeFetched e i page))) 0.15
                                          (trust (scores (analyzeFetched e i page))))
       | None \<Rightarrow> js_round (weighted3 0.4 (seo (scores (analyzeFetched e i page)))
                                        0.35 (ux (scores (analyzeFetched e i page))) 0.25
                                        (trust (scores (analyzeFetched e i page)))))"
  by (simp add: scores_analyzeFetched Let_def split: pagespeed.split)

lemma down_analyzeFetched:
  assumes "snd (runPageSpeed e (fetched_url page) ''mobile'') = Inl f"
  shows "pagespeed (analyzeFetched e i page) = PsiError (failureText f)
       \<and> performance (scores (analyzeFetched e i page)) = None
       \<and> seo (scores (analyzeFetched e i page)) = scoreFromIssues (snd (seoChecks (cheerioLoad e (html page))))"
  using assms by (simp add: scores_analyzeFetched pagespeed_analyzeFetched psiOf_def Let_def)

lemma failureText_empty_iff: "(failureText f = []) = (f = PsiRaised (Exn [] []))"
proof (cases f)
  case (PsiStatus st)
  then show ?thesis by (simp add: failureText_def)
next
  case (PsiRaised x)
  then show ?thesis by (cases x) (simp add: failureText_def)
qed

lemma sample_psi_down:
  "snd (runPageSpeed (sample_env pg psi_down) u ''mobile'') = Inl (PsiRaised (Exn ''TypeError'' ''fetch failed''))"
  by (simp add: runPageSpeed_def sample_env_def psi_down_def Let_def)

lemma route_run:
  "POST w (Body (Some ''example.com'') None) = ReportReply (POST_report w ''https://example.com'')"
  by (simp add: POST_def inputRaw_def normalizeUrl_route_def trim_def isSpace_def hasHttpScheme_def
      toLowerCase_def toLowerChar_def Let_def)

lemma route_scores_half:
  "rt_scores (POST_report (route_world page_down psi_half) ''https://example.com'')
    = \<lparr>rt_total = Some 65, rt_performance = Some 50, rt_seo = Some 50, rt_ux = 92, rt_trust = 85\<rparr>"
  by code_simp

lemma route_scores_seo_only:
  "rt_scores (POST_report (route_world page_down psi_seo_only) ''https://example.com'')
    = \<lparr>rt_total = None, rt_performance = None, rt_seo = Some 50, rt_ux = 92, rt_trust = 85\<rparr>"
  by code_simp

lemma claimed_total_half: "js_round (weighted4 0.35 50 0.3 92 0.2 50 0.15 85) = 68"
  by code_simp

lemma sample_scores_down:
  "scores (analyzeFetched (sample_env sample_page psi_down) ''example.com'' sample_fetched)
     = \<lparr>total = 69, performance = None, seo = 64, ux = 92, trust = 44\<rparr>"
  by code_simp

text \<open>
  Claim C1, as stated for every report, fails on the handler of \<^verbatim>\<open>route.ts\<close>: with the page
  unreachable and PageSpeed scores of 50 for performance and SEO, the handler's total is
  65, where the claimed formula gives 68; and with a PageSpeed response that has an SEO
  score but no performance score, the handler reports no total although the SEO, UX and
  trust scores are all there.
\<close>

theorem total_score_formula_counterexample:
  "replyScores (POST (route_world page_down psi_half) (Body (Some ''example.com'') None))
     = Some \<lparr>rt_total = Some 65, rt_performance = Some 50, rt_seo = Some 50, rt_ux = 92,
             rt_trust = 85\<rparr>
   \<and> js_round (weighted4 0.35 50 0.3 92 0.2 50 0.15 85) = 68
   \<and> replyScores (POST (route_world page_down psi_seo_only) (Body (Some ''example.com'') None))
     = Some \<lparr>rt_total = None, rt_performance = None, rt_seo = Some 50, rt_ux = 92,
             rt_trust = 85\<rparr>"
  using claimed_total_half
  by (simp add: route_run replyScores_def route_scores_half route_scores_seo_only)

text \<open>
  Claim C1, amended. In every report of \<^verbatim>\<open>analyzeSite\<close> the performance score is absent
  exactly when the PageSpeed call failed; the total is
  round(0.35 performance + 0.30 ux + 0.20 seo + 0.15 trust) when the performance score is
  present and round(0.40 seo + 0.35 ux + 0.25 trust) otherwise, the sum being evaluated in
  double precision from left to right and then rounded by \<^verbatim>\<open>Math.round\<close>. When
  normalisation and retrieval succeed and the PageSpeed call fails, \<^verbatim>\<open>analyzeSite\<close> still
  returns a report, whose SEO score comes from the SEO issues and whose total is the
  three-term formula; its \<^verbatim>\<open>pagespeed.error\<close> is the text of the failure, which is empty only
  when what was thrown has an empty message and an empty name. The handler of \<^verbatim>\<open>route.ts\<close>
  instead reports
  round(0.35 performance + 0.25 seo + 0.20 ux + 0.20 trust) when PageSpeed gave both a
  performance and an SEO score, and no total otherwise.
\<close>

theorem total_score_formula:
  "(analyzeSite e inputUrl = Inr r \<longrightarrow>
      (performance (scores r) = None) = (\<exists>m. pagespeed r = PsiError m)
      \<and> total (scores r)
        = (case performance (scores r) of
             Some p \<Rightarrow> js_round (weighted4 0.35 p 0.3 (ux (scores r)) 0.2
                                              (seo (scores r)) 0.15 (trust (scores r)))
           | None \<Rightarrow> js_round (weighted3 0.4 (seo (scores r)) 0.35
                                            (ux (scores r)) 0.25 (trust (scores r)))))
   \<and> (normalizeUrl (newURL e) inputUrl = Inr u \<and> fetchHtml (fetchPage e) u = Inr page
       \<and> snd (runPageSpeed e (fetched_url page) ''mobile'') = Inl f \<longrightarrow>
      (\<exists>r'. analyzeSite e inputUrl = Inr r'
            \<and> pagespeed r' = PsiError (failureText f)
            \<and> (failureText f = []) = (f = PsiRaised (Exn [] []))
            \<and> performance (scores r') = None
            \<and> seo (scores r') = scoreFromIssues (snd (seoChecks (cheerioLoad e (html page))))
            \<and> total (scores r')
              = js_round (weighted3 0.4 (seo (scores r')) 0.35 (ux (scores r')) 0.25
                            (trust (scores r')))))
   \<and> (POST w req = ReportReply rr \<longrightarrow>
      rt_total (rt_scores rr)
        = (case (rt_performance (rt_scores rr), rt_seo (rt_scores rr)) of
             (Some p, Some q) \<Rightarrow>
               Some (js_round (weighted4 0.35 p 0.25 q 0.2 (rt_ux (rt_scores rr)) 0.2
                                 (rt_trust (rt_scores rr))))
           | _ \<Rightarrow> None))"
proof (intro conjI impI)
  assume a: "analyzeSite e inputUrl = Inr r"
  from analyzeSite_Inr [OF a] obtain pg where r: "r = analyzeFetched e inputUrl pg" by blast
  show "(performance (scores r) = None) = (\<exists>m. pagespeed r = PsiError m)"
    unfolding r by (rule performance_None_iff)
  show "total (scores r)
        = (case performance (scores r) of
             Some p \<Rightarrow> js_round (weighted4 0.35 p 0.3 (ux (scores r)) 0.2
                                              (seo (scores r)) 0.15 (trust (scores r)))
           | None \<Rightarrow> js_round (weighted3 0.4 (seo (scores r)) 0.35
                                            (ux (scores r)) 0.25 (trust (scores r))))"
    unfolding r by (rule total_analyzeFetched)
next
  assume h: "normalizeUrl (newURL e) inputUrl = Inr u \<and> fetchHtml (fetchPage e) u = Inr page
       \<and> snd (runPageSpeed e (fetched_url page) ''mobile'') = Inl f"
  then have run: "analyzeSite e inputUrl = Inr (analyzeFetched e inputUrl page)"
    by (simp add: analyzeSite_def)
  from h have d: "snd (runPageSpeed e (fetched_url page) ''mobile'') = Inl f" by simp
  note dn = down_analyzeFetched [OF d, of inputUrl]
  have t: "total (scores (analyzeFetched e inputUrl page))
              = js_round (weighted3 0.4 (seo (scores (analyzeFetched e inputUrl page))) 0.35
                            (ux (scores (analyzeFetched e inputUrl page))) 0.25
                            (trust (scores (analyzeFetched e inputUrl page))))"
    using dn by (simp add: total_analyzeFetched [of e inputUrl page])
  from run dn t failureText_empty_iff [of f] show "\<exists>r'. analyzeSite e inputUrl = Inr r'
            \<and> pagespeed r' = PsiError (failureText f)
            \<and> (failureText f = []) = (f = PsiRaised (Exn [] []))
            \<and> performance (scores r') = None
            \<and> seo (scores r') = scoreFromIssues (snd (seoChecks (cheerioLoad e (html page))))
            \<and> total (scores r')
              = js_round (weighted3 0.4 (seo (scores r')) 0.35 (ux (scores r')) 0.25
                            (trust (scores r')))"
    by blast
next
  assume "POST w req = ReportReply rr"
  from POST_ReportReply [OF this] obtain i where rr: "rr = POST_report w i" by blast
  show "rt_total (rt_scores rr)
        = (case (rt_performance (rt_scores rr), rt_seo (rt_scores rr)) of
             (Some p, Some q) \<Rightarrow>
               Some (js_round (weighted4 0.35 p 0.25 q 0.2 (rt_ux (rt_scores rr)) 0.2
                                 (rt_trust (rt_scores rr))))
           | _ \<Rightarrow> None)"
    unfolding rr by (rule scores_POST_report)
qed

theorem total_score_formula_witness:
  "normalizeUrl (newURL (sample_env sample_page psi_down)) ''example.com''
     = Inr ''https://example.com/''
   \<and> fetchHtml (fetchPage (sample_env sample_page psi_down)) ''https://example.com/''
     = Inr sample_fetched
   \<and> snd (runPageSpeed (sample_env sample_page psi_down) (fetched_url sample_fetched) ''mobile'')
     = Inl (PsiRaised (Exn ''TypeError'' ''fetch failed''))
   \<and> analyzeSite (sample_env sample_page psi_down) ''example.com''
     = Inr (analyzeFetched (sample_env sample_page psi_down) ''example.com'' sample_fetched)
   \<and> pagespeed (analyzeFetched (sample_env sample_page psi_down) ''example.com'' sample_fetched)
     = PsiError ''fetch failed''
   \<and> scores (analyzeFetched (sample_env sample_page psi_down) ''example.com'' sample_fetched)
     = \<lparr>total = 69, performance = None, seo = 64, ux = 92, trust = 44\<rparr>
   \<and> js_round (weighted3 0.4 64 0.35 92 0.25 44) = 69
   \<and> POST (route_world page_down psi_half) (Body (Some ''example.com'') None)
     = ReportReply (POST_report (route_world page_down psi_half) ''https://example.com'')
   \<and> rt_scores (POST_report (route_world page_down psi_half) ''https://example.com'')
     = \<lparr>rt_total = Some 65, rt_performance = Some 50, rt_seo = Some 50, rt_ux = 92,
        rt_trust = 85\<rparr>
   \<and> js_round (weighted4 0.35 50 0.25 50 0.2 92 0.2 85) = 65"
proof -
  note t = total_score_formula
      [of "sample_env sample_page psi_down" "''example.com''"
          "analyzeFetched (sample_env sample_page psi_down) ''example.com'' sample_fetched"
          "''https://example.com/''" sample_fetched "PsiRaised (Exn ''TypeError'' ''fetch failed'')"
          "route_world page_down psi_half" "Body (Some ''example.com'') None"
          "POST_report (route_world page_down psi_half) ''https://example.com''"]
  note a = sample_run [of psi_down]
  note b = route_run [of "route_world page_down psi_half"]
  have n: "normalizeUrl (newURL (sample_env sample_page psi_down)) ''example.com''
     = Inr ''https://example.com/''"
    by (simp add: sample_env_def sample_normalize)
  have f: "fetchHtml (fetchPage (sample_env sample_page psi_down)) ''https://example.com/''
     = Inr sample_fetched"
    by (simp add: sample_env_def sample_fetch)
  note d = sample_psi_down [of sample_page "fetched_url sample_fetched"]
  from t n f d obtain r' where
    r: "analyzeSite (sample_env sample_page psi_down) ''example.com'' = Inr r'"
    and p: "pagespeed r' = PsiError (failureText (PsiRaised (Exn ''TypeError'' ''fetch failed'')))"
    by blast
  from r a have "r' = analyzeFetched (sample_env sample_page psi_down) ''example.com'' sample_fetched"
    by simp
  with p have 1: "pagespeed (analyzeFetched (sample_env sample_page psi_down) ''example.com'' sample_fetched)
     = PsiError ''fetch failed''"
    by (simp add: failureText_def)
  from t a have 2: "total (scores (analyzeFetched (sample_env sample_page psi_down) ''example.com'' sample_fetched))
     = (case performance (scores (analyzeFetched (sample_env sample_page psi_down) ''example.com'' sample_fetched)) of
          Some p \<Rightarrow> js_round (weighted4 0.35 p 0.3
             (ux (scores (analyzeFetched (sample_env sample_page psi_down) ''example.com'' sample_fetched))) 0.2
             (seo (scores (analyzeFetched (sample_env sample_page psi_down) ''example.com'' sample_fetched))) 0.15
             (trust (scores (analyzeFetched (sample_env sample_page psi_down) ''example.com'' sample_fetched))))
        | None \<Rightarrow> js_round (weighted3 0.4
             (seo (scores (analyzeFetched (sample_env sample_page psi_down) ''example.com'' sample_fetched))) 0.35
             (ux (scores (analyzeFetched (sample_env sample_page psi_down) ''example.com'' sample_fetched))) 0.25
             (trust (scores (analyzeFetched (sample_env sample_page psi_down) ''example.com'' sample_fetched)))))"
    by blast
  then have 3: "js_round (weighted3 0.4 64 0.35 92 0.25 44) = 69"
    by (simp add: sample_scores_down)
  from t b have 4: "rt_total (rt_scores (POST_report (route_world page_down psi_half) ''https://example.com''))
     = (case (rt_performance (rt_scores (POST_report (route_world page_down psi_half) ''https://example.com'')),
              rt_seo (rt_scores (POST_report (route_world page_down psi_half) ''https://example.com''))) of
          (Some p, Some q) \<Rightarrow>
            Some (js_round (weighted4 0.35 p 0.25 q 0.2
               (rt_ux (rt_scores (POST_report (route_world page_down psi_half) ''https://example.com''))) 0.2
               (rt_trust (rt_scores (POST_report (route_world page_down psi_half) ''https://example.com'')))))
        | _ \<Rightarrow> None)"
    by blast
  then have 5: "js_round (weighted4 0.35 50 0.25 50 0.2 92 0.2 85) = 65"
    by (simp add: route_scores_half)
  from n f d a 1 sample_scores_down 3 b route_scores_half 5 show ?thesis by blast
qed

subsection \<open>The scenario of a bare page\<close>

lemma finalUrl_analyzeFetched: "finalUrl (analyzeFetched e i page) = fetched_url page"
  by (simp add: analyzeFetched_def Let_def split: prod.split)

lemma quickWins_analyzeFetched:
  "quickWins (analyzeFetched e i page) = quickWinsOf (issues (analyzeFetched e i page))"
  by (simp add: analyzeFetched_def Let_def split: prod.split)

lemma trustFindings_analyzeFetched:
  "trustFindings (analyzeFetched e i page) = findTrustLinks (cheerioLoad e (html page))"
  by (simp add: analyzeFetched_def Let_def split: prod.split)

lemma set_sortBySeverity: "set (sortBySeverity xs) = set xs"
  by (simp add: sortBySeverity_def)

lemma length_sortBySeverity_filter:
  "length (filter P (sortBySeverity xs)) = length (filter P xs)"
  by (simp add: sortBySeverity_def filter_sort)

lemma seoIssues_keys:
  "x \<in> set (seoIssues s n) \<Longrightarrow> prefix ''seo.'' (key x)"
  by (auto simp: seoIssues_def Let_def split: if_splits)

lemma trustIssuesOf_keys:
  "x \<in> set (trustIssuesOf t) \<Longrightarrow>
     key x \<in> set [''trust.contact.missing'', ''trust.shipping.missing'', ''trust.returns.missing'',
                   ''trust.privacy.missing'', ''trust.terms.missing'']"
  by (auto simp: trustIssuesOf_def split: if_splits)

lemma uxIssuesOf_keys: "x \<in> set (uxIssuesOf c) \<Longrightarrow> key x = ''ux.cta.unclear''"
  by (auto simp: uxIssuesOf_def split: if_splits)

lemma no_faq_issue:
  "''trust.faq.missing'' \<notin> key ` set (issues (analyzeFetched e i page))"
proof
  assume "''trust.faq.missing'' \<in> key ` set (issues (analyzeFetched e i page))"
  then obtain x where x: "x \<in> set (issues (analyzeFetched e i page))" and k: "key x = ''trust.faq.missing''"
    by auto
  from x have "x \<in> set (snd (seoChecks (cheerioLoad e (html page))))
      \<or> x \<in> set (trustIssuesOf (findTrustLinks (cheerioLoad e (html page))))
      \<or> x \<in> set (uxIssuesOf (hasPrimaryCta (cheerioLoad e (html page))))"
    by (simp add: issues_analyzeFetched set_sortBySeverity)
  then show False
  proof (elim disjE)
    assume "x \<in> set (snd (seoChecks (cheerioLoad e (html page))))"
    then have "prefix ''seo.'' (key x)" by (auto simp: seoChecks_def Let_def dest: seoIssues_keys)
    with k show False by simp
  next
    assume "x \<in> set (trustIssuesOf (findTrustLinks (cheerioLoad e (html page))))"
    from trustIssuesOf_keys [OF this] k show False by simp
  next
    assume "x \<in> set (uxIssuesOf (hasPrimaryCta (cheerioLoad e (html page))))"
    from uxIssuesOf_keys [OF this] k show False by simp
  qed
qed

lemma scenario_seoIssues:
  assumes "scenario d"
  shows "set [(''seo.title.missing'', high), (''seo.metadesc.missing'', high),
              (''seo.canonical.missing'', low), (''seo.opengraph.incomplete'', low)]
          \<subseteq> set (map (\<lambda>i. (key i, severity i)) (snd (seoChecks d)))"
  using assms
  by (simp add: scenario_def seoChecks_def seoIssues_def Let_def orEmpty_def textLen_def trim_def)

lemma scenario_trustIssues:
  assumes "scenario d"
  shows "map (\<lambda>i. (key i, severity i)) (trustIssuesOf (findTrustLinks d))
          = [(''trust.contact.missing'', high), (''trust.shipping.missing'', high),
             (''trust.returns.missing'', high), (''trust.privacy.missing'', medium),
             (''trust.terms.missing'', low)]"
  using assms by (simp add: scenario_def trustIssuesOf_def)

lemma scenario_uxIssues:
  assumes "scenario d"
  shows "map (\<lambda>i. (key i, severity i)) (uxIssuesOf (hasPrimaryCta d)) = [(''ux.cta.unclear'', medium)]"
  using assms by (simp add: scenario_def uxIssuesOf_def)

lemma scenario_trustScore:
  assumes "scenario d"
  shows "scoreFromIssues (trustIssuesOf (findTrustLinks d)) = 44"
  using assms by (simp add: scenario_def trustIssuesOf_def scoreFromIssues_def penalty_def)

lemma trust_analyzeFetched:
  "trust (scores (analyzeFetched e i page))
     = scoreFromIssues (trustIssuesOf (findTrustLinks (cheerioLoad e (html page))))"
  by (simp add: scores_analyzeFetched Let_def split: pagespeed.split)

lemma trust_prefix_count:
  "length (filter (\<lambda>i. prefix ''trust.'' (key i)) (issues (analyzeFetched e i page)))
     = length (trustIssuesOf (findTrustLinks (cheerioLoad e (html page))))"
proof -
  have s: "filter (\<lambda>i. prefix ''trust.'' (key i)) (snd (seoChecks d)) = []" for d
    by (auto simp: filter_empty_conv seoChecks_def Let_def dest!: seoIssues_keys elim!: prefixE)
  have t: "filter (\<lambda>i. prefix ''trust.'' (key i)) (trustIssuesOf t) = trustIssuesOf t" for t
    by (auto simp: filter_id_conv dest!: trustIssuesOf_keys)
  have u: "filter (\<lambda>i. prefix ''trust.'' (key i)) (uxIssuesOf c) = []" for c
    by (auto simp: filter_empty_conv dest!: uxIssuesOf_keys)
  show ?thesis
    by (simp add: issues_analyzeFetched length_sortBySeverity_filter s t u)
qed

lemma sample_scenario: "scenario sample_document"
  by code_simp

lemma sample_issue_keys:
  "map key (issues (analyzeFetched (sample_env sample_page psi_down) ''example.com'' sample_fetched))
     = [''seo.title.missing'', ''seo.metadesc.missing'', ''trust.contact.missing'',
        ''trust.shipping.missing'', ''trust.returns.missing'', ''trust.privacy.missing'',
        ''ux.cta.unclear'', ''seo.canonical.missing'', ''seo.opengraph.incomplete'',
        ''trust.terms.missing'']"
  by code_simp

lemma sample_faq:
  "faq (trustFindings (analyzeFetched (sample_env sample_page psi_down) ''example.com'' sample_fetched))
     = False"
  by code_simp

text \<open>
  Claim C4, as stated, fails on the page of the scenario: the report has five
  \<^verbatim>\<open>trust.*.missing\<close> issues, not six. The FAQ category is found absent, but no rule turns
  that into an issue, so \<^verbatim>\<open>trust.faq.missing\<close> is not in the list.
\<close>

theorem scenario_issues_counterexample:
  "analyzeSite (sample_env sample_page psi_down) ''example.com''
     = Inr (analyzeFetched (sample_env sample_page psi_down) ''example.com'' sample_fetched)
   \<and> scenario sample_document
   \<and> faq (trustFindings
        (analyzeFetched (sample_env sample_page psi_down) ''example.com'' sample_fetched)) = False
   \<and> map key (issues
        (analyzeFetched (sample_env sample_page psi_down) ''example.com'' sample_fetched))
     = [''seo.title.missing'', ''seo.metadesc.missing'', ''trust.contact.missing'',
        ''trust.shipping.missing'', ''trust.returns.missing'', ''trust.privacy.missing'',
        ''ux.cta.unclear'', ''seo.canonical.missing'', ''seo.opengraph.incomplete'',
        ''trust.terms.missing'']
   \<and> ''trust.faq.missing'' \<notin> set (map key (issues
        (analyzeFetched (sample_env sample_page psi_down) ''example.com'' sample_fetched)))"
  by (simp add: sample_run sample_scenario sample_faq sample_issue_keys)

text \<open>
  Claim C4, amended. When the page is that of the scenario, the issue list of the report of
  \<^verbatim>\<open>analyzeSite\<close> includes \<^verbatim>\<open>seo.title.missing\<close> (high), \<^verbatim>\<open>seo.metadesc.missing\<close> (high),
  \<^verbatim>\<open>seo.canonical.missing\<close> (low), \<^verbatim>\<open>seo.opengraph.incomplete\<close> (low), the five trust issues
  \<^verbatim>\<open>trust.contact.missing\<close>, \<^verbatim>\<open>trust.shipping.missing\<close>, \<^verbatim>\<open>trust.returns.missing\<close> (high),
  \<^verbatim>\<open>trust.privacy.missing\<close> (medium) and \<^verbatim>\<open>trust.terms.missing\<close> (low), and
  \<^verbatim>\<open>ux.cta.unclear\<close> (medium); exactly five issues have a key that starts with
  \<^verbatim>\<open>trust.\<close>, none of them \<^verbatim>\<open>trust.faq.missing\<close>; and the trust score is
  100 - (3 * 15 + 8 + 3) = 44.
\<close>

theorem scenario_issues:
  "analyzeSite e inputUrl = Inr r \<Longrightarrow>
   normalizeUrl (newURL e) inputUrl = Inr u \<Longrightarrow>
   fetchHtml (fetchPage e) u = Inr page \<Longrightarrow>
   scenario (cheerioLoad e (html page)) \<Longrightarrow>
     set [(''seo.title.missing'', high), (''seo.metadesc.missing'', high),
          (''seo.canonical.missing'', low), (''seo.opengraph.incomplete'', low),
          (''trust.contact.missing'', high), (''trust.shipping.missing'', high),
          (''trust.returns.missing'', high), (''trust.privacy.missing'', medium),
          (''trust.terms.missing'', low), (''ux.cta.unclear'', medium)]
       \<subseteq> set (map (\<lambda>i. (key i, severity i)) (issues r))
     \<and> length (filter (\<lambda>i. prefix ''trust.'' (key i)) (issues r)) = 5
     \<and> ''trust.faq.missing'' \<notin> key ` set (issues r)
     \<and> trust (scores r) = 100 - (3 * 15 + 8 + 3)
     \<and> trust (scores r) = 44"
proof -
  assume a: "analyzeSite e inputUrl = Inr r" and n: "normalizeUrl (newURL e) inputUrl = Inr u"
    and f: "fetchHtml (fetchPage e) u = Inr page" and sc: "scenario (cheerioLoad e (html page))"
  from a n f have r: "r = analyzeFetched e inputUrl page" by (simp add: analyzeSite_def)
  define d where "d = cheerioLoad e (html page)"
  have set_eq: "set (map (\<lambda>i. (key i, severity i)) (issues r))
      = set (map (\<lambda>i. (key i, severity i)) (snd (seoChecks d)))
        \<union> set (map (\<lambda>i. (key i, severity i)) (trustIssuesOf (findTrustLinks d)))
        \<union> set (map (\<lambda>i. (key i, severity i)) (uxIssuesOf (hasPrimaryCta d)))"
    by (simp add: r issues_analyzeFetched set_sortBySeverity d_def image_Un Un_assoc)
  have inc: "set [(''seo.title.missing'', high), (''seo.metadesc.missing'', high),
          (''seo.canonical.missing'', low), (''seo.opengraph.incomplete'', low),
          (''trust.contact.missing'', high), (''trust.shipping.missing'', high),
          (''trust.returns.missing'', high), (''trust.privacy.missing'', medium),
          (''trust.terms.missing'', low), (''ux.cta.unclear'', medium)]
       \<subseteq> set (map (\<lambda>i. (key i, severity i)) (issues r))"
    unfolding set_eq
    using scenario_seoIssues [OF sc] scenario_trustIssues [OF sc] scenario_uxIssues [OF sc]
    unfolding d_def [symmetric] by auto
  have cnt: "length (filter (\<lambda>i. prefix ''trust.'' (key i)) (issues r)) = 5"
    using arg_cong [OF scenario_trustIssues [OF sc], of length]
    by (simp add: r trust_prefix_count)
  have nf: "''trust.faq.missing'' \<notin> key ` set (issues r)"
    unfolding r by (rule no_faq_issue)
  have ts: "trust (scores r) = 44"
    by (simp add: r trust_analyzeFetched scenario_trustScore [OF sc])
  from inc cnt nf ts show ?thesis by simp
qed

theorem scenario_issues_witness:
  "analyzeSite (sample_env sample_page psi_down) ''example.com''
     = Inr (analyzeFetched (sample_env sample_page psi_down) ''example.com'' sample_fetched)
   \<and> normalizeUrl (newURL (sample_env sample_page psi_down)) ''example.com''
     = Inr ''https://example.com/''
   \<and> fetchHtml (fetchPage (sample_env sample_page psi_down)) ''https://example.com/''
     = Inr sample_fetched
   \<and> scenario (cheerioLoad (sample_env sample_page psi_down) (html sample_fetched))
   \<and> trust (scores
        (analyzeFetched (sample_env sample_page psi_down) ''example.com'' sample_fetched)) = 44"
proof -
  have n: "normalizeUrl (newURL (sample_env sample_page psi_down)) ''example.com''
     = Inr ''https://example.com/''"
    by (simp add: sample_env_def sample_normalize)
  have f: "fetchHtml (fetchPage (sample_env sample_page psi_down)) ''https://example.com/''
     = Inr sample_fetched"
    by (simp add: sample_env_def sample_fetch)
  have s: "scenario (cheerioLoad (sample_env sample_page psi_down) (html sample_fetched))"
    by (simp add: sample_env_def sample_scenario)
  from scenario_issues [OF sample_run [of psi_down] n f s] sample_run [of psi_down] n f s
  show ?thesis by simp
qed

subsection \<open>Quick wins\<close>

lemma subseq_take_self: "subseq (take n xs) xs"
  by (metis append_take_drop_id list_emb_append_mono subseq_order.order_refl list_emb_Nil append_Nil2)

lemma quickWinsOf_props:
  assumes s: "sorted (map (\<lambda>i. severityRank (severity i)) xs)"
  shows "\<exists>ws. subseq ws xs \<and> quickWinsOf xs = map fix ws \<and> length ws \<le> 7
            \<and> (\<forall>w \<in> set ws. severity w \<in> {critical, high, medium})
            \<and> sorted (map (\<lambda>i. severityRank (severity i)) ws)
            \<and> ws = take 7 (filter (\<lambda>i. severity i \<noteq> low) xs)"
proof -
  define ws where "ws = take 7 (filter (\<lambda>i. severity i \<in> set [critical, high, medium]) xs)"
  have f: "filter (\<lambda>i. severity i \<in> set [critical, high, medium]) xs = filter (\<lambda>i. severity i \<noteq> low) xs"
    by (rule filter_cong) (auto intro: Severity.exhaust)
  have 1: "subseq ws xs"
    unfolding ws_def by (rule subseq_order.order_trans [OF subseq_take_self subseq_filter_left])
  have 2: "quickWinsOf xs = map fix ws" by (simp add: quickWinsOf_def ws_def)
  have 3: "length ws \<le> 7" by (simp add: ws_def)
  have 4: "\<forall>w \<in> set ws. severity w \<in> {critical, high, medium}"
    unfolding ws_def by (auto dest!: in_set_takeD)
  have "sorted (map (\<lambda>i. severityRank (severity i)) (filter (\<lambda>i. severity i \<in> set [critical, high, medium]) xs))"
    by (rule sorted_filter [OF s])
  then have 5: "sorted (map (\<lambda>i. severityRank (severity i)) ws)"
    unfolding ws_def take_map [symmetric] by (rule sorted_wrt_take)
  have 6: "ws = take 7 (filter (\<lambda>i. severity i \<noteq> low) xs)" by (simp only: ws_def f)
  from 1 2 3 4 5 6 show ?thesis by blast
qed

lemma rt_quickWins_POST_report:
  "rt_quickWins (POST_report e i)
     = map fix (take 3 (sort_key (\<lambda>x. severityRank_route (severity x)) (rt_issues (POST_report e i))))"
proof -
  obtain h st fu where ret: "retrieve (rt_fetchPage e) i = (h, st, fu)"
    by (metis prod_cases3)
  show ?thesis
    by (simp add: POST_report_def ret Let_def quickWins_route_def)
qed

lemma route_issues_down:
  "map key (rt_issues (POST_report (route_world page_down psi_down) ''https://example.com''))
     = [''trust.shipping.missing'', ''seo.canonical.missing'', ''ux.cta.unclear'']"
  by code_simp

lemma route_severities_down:
  "map severity (rt_issues (POST_report (route_world page_down psi_down) ''https://example.com''))
     = [High, Low, Medium]"
  by code_simp

lemma route_quickWins_down:
  "rt_quickWins (POST_report (route_world page_down psi_down) ''https://example.com'')
     = [fix (rt_issues (POST_report (route_world page_down psi_down) ''https://example.com'') ! 0),
        fix (rt_issues (POST_report (route_world page_down psi_down) ''https://example.com'') ! 2),
        fix (rt_issues (POST_report (route_world page_down psi_down) ''https://example.com'') ! 1)]"
  by code_simp

lemma route_not_subseq_down:
  "\<not> subseq (rt_quickWins (POST_report (route_world page_down psi_down) ''https://example.com''))
        (map fix (rt_issues (POST_report (route_world page_down psi_down) ''https://example.com'')))"
  by code_simp

text \<open>
  Claim C5, as stated for every report, fails on the handler of \<^verbatim>\<open>route.ts\<close>: when the page
  cannot be retrieved its issues are, in this order, the missing shipping page (high), the
  missing canonical link (low) and the unclear call to action (medium), and its quick wins
  are the remediation texts of the first, the third and the second of them. So the quick
  wins contain the text of a low issue and are not a subsequence of the remediation texts
  of the issue list.
\<close>

theorem quickWins_projection_counterexample:
  "POST (route_world page_down psi_down) (Body (Some ''example.com'') None)
     = ReportReply (POST_report (route_world page_down psi_down) ''https://example.com'')
   \<and> map key (rt_issues (POST_report (route_world page_down psi_down) ''https://example.com''))
     = [''trust.shipping.missing'', ''seo.canonical.missing'', ''ux.cta.unclear'']
   \<and> map severity (rt_issues (POST_report (route_world page_down psi_down) ''https://example.com''))
     = [High, Low, Medium]
   \<and> rt_quickWins (POST_report (route_world page_down psi_down) ''https://example.com'')
     = [fix (rt_issues (POST_report (route_world page_down psi_down) ''https://example.com'') ! 0),
        fix (rt_issues (POST_report (route_world page_down psi_down) ''https://example.com'') ! 2),
        fix (rt_issues (POST_report (route_world page_down psi_down) ''https://example.com'') ! 1)]
   \<and> \<not> subseq (rt_quickWins (POST_report (route_world page_down psi_down) ''https://example.com''))
        (map fix (rt_issues (POST_report (route_world page_down psi_down) ''https://example.com'')))"
  using route_run [of "route_world page_down psi_down"] route_issues_down route_severities_down
    route_quickWins_down route_not_subseq_down
  by simp

text \<open>
  Claim C5, amended. In every report of \<^verbatim>\<open>analyzeSite\<close> the quick wins are the remediation
  texts of the first seven issues of the issue list that are not of low severity: a
  subsequence of the remediation texts of the issues, of length at most 7, of issues of
  severity critical, high or medium only, in severity order. In a report of the handler of
  \<^verbatim>\<open>route.ts\<close> the quick wins are the remediation texts of the first three issues of the
  issue list after it has been sorted by severity.
\<close>

theorem quickWins_projection:
  "(analyzeSite e inputUrl = Inr r \<longrightarrow>
      subseq (quickWins r) (map fix (issues r))
      \<and> length (quickWins r) \<le> 7
      \<and> (\<exists>ws. subseq ws (issues r) \<and> quickWins r = map fix ws
            \<and> (\<forall>w \<in> set ws. severity w \<in> {critical, high, medium})
            \<and> sorted (map (\<lambda>i. severityRank (severity i)) ws)
            \<and> ws = take 7 (filter (\<lambda>i. severity i \<noteq> low) (issues r))))
   \<and> (POST w req = ReportReply rr \<longrightarrow>
      rt_quickWins rr
        = map fix (take 3 (sort_key (\<lambda>x. severityRank_route (severity x)) (rt_issues rr))))"
proof (intro conjI impI)
  assume a: "analyzeSite e inputUrl = Inr r"
  from analyzeSite_Inr [OF a] obtain pg where r: "r = analyzeFetched e inputUrl pg" by blast
  have s: "sorted (map (\<lambda>i. severityRank (severity i)) (issues r))"
    by (simp only: r issues_analyzeFetched sorted_sortBySeverity)
  have q: "quickWins r = quickWinsOf (issues r)" by (simp add: r quickWins_analyzeFetched)
  from quickWinsOf_props [OF s] obtain ws where
    ws: "subseq ws (issues r)" "quickWinsOf (issues r) = map fix ws" "length ws \<le> 7"
        "\<forall>w \<in> set ws. severity w \<in> {critical, high, medium}"
        "sorted (map (\<lambda>i. severityRank (severity i)) ws)"
        "ws = take 7 (filter (\<lambda>i. severity i \<noteq> low) (issues r))"
    by blast
  show "subseq (quickWins r) (map fix (issues r))"
    using ws(1,2) by (simp add: q subseq_map)
  show "length (quickWins r) \<le> 7" using ws(2,3) by (simp add: q)
  show "\<exists>ws. subseq ws (issues r) \<and> quickWins r = map fix ws
            \<and> (\<forall>w \<in> set ws. severity w \<in> {critical, high, medium})
            \<and> sorted (map (\<lambda>i. severityRank (severity i)) ws)
            \<and> ws = take 7 (filter (\<lambda>i. severity i \<noteq> low) (issues r))"
    using ws q by metis
next
  assume "POST w req = ReportReply rr"
  from POST_ReportReply [OF this] obtain i where rr: "rr = POST_report w i" by blast
  show "rt_quickWins rr
        = map fix (take 3 (sort_key (\<lambda>x. severityRank_route (severity x)) (rt_issues rr)))"
    unfolding rr by (rule rt_quickWins_POST_report)
qed

theorem quickWins_projection_witness:
  "analyzeSite (sample_env sample_page psi_down) ''example.com''
     = Inr (analyzeFetched (sample_env sample_page psi_down) ''example.com'' sample_fetched)
   \<and> subseq (quickWins (analyzeFetched (sample_env sample_page psi_down) ''example.com'' sample_fetched))
        (map fix (issues (analyzeFetched (sample_env sample_page psi_down) ''example.com'' sample_fetched)))
   \<and> length (quickWins (analyzeFetched (sample_env sample_page psi_down) ''example.com'' sample_fetched)) \<le> 7
   \<and> POST (route_world page_down psi_down) (Body (Some ''example.com'') None)
     = ReportReply (POST_report (route_world page_down psi_down) ''https://example.com'')
   \<and> rt_quickWins (POST_report (route_world page_down psi_down) ''https://example.com'')
     = map fix (take 3 (sort_key (\<lambda>x. severityRank_route (severity x))
         (rt_issues (POST_report (route_world page_down psi_down) ''https://example.com''))))"
proof -
  note t = quickWins_projection
      [of "sample_env sample_page psi_down" "''example.com''"
          "analyzeFetched (sample_env sample_page psi_down) ''example.com'' sample_fetched"
          "route_world page_down psi_down" "Body (Some ''example.com'') None"
          "POST_report (route_world page_down psi_down) ''https://example.com''"]
  note a = sample_run [of psi_down]
  note b = route_run [of "route_world page_down psi_down"]
  from t a have 1: "subseq (quickWins (analyzeFetched (sample_env sample_page psi_down) ''example.com'' sample_fetched))
        (map fix (issues (analyzeFetched (sample_env sample_page psi_down) ''example.com'' sample_fetched)))
   \<and> length (quickWins (analyzeFetched (sample_env sample_page psi_down) ''example.com'' sample_fetched)) \<le> 7"
    by blast
  from t b have 2: "rt_quickWins (POST_report (route_world page_down psi_down) ''https://example.com'')
     = map fix (take 3 (sort_key (\<lambda>x. severityRank_route (severity x))
         (rt_issues (POST_report (route_world page_down psi_down) ''https://example.com''))))"
    by blast
  from a b 1 2 show ?thesis by blast
qed

subsection \<open>Categories missing from a successful PageSpeed response\<close>

lemma runPageSpeed_ok:
  assumes "fst (runPageSpeed e u strategy) = [rq]"
    and "fetchPsi e rq = PsiResponse st (Inr j)" and "http_ok st"
  shows "snd (runPageSpeed e u strategy)
     = Inr \<lparr>data_scores =
              \<lparr>ps_performance = percent (category_score j ''performance''),
               ps_seo = percent (category_score j ''seo''),
               ps_bestPractices = percent (category_score j ''best-practices''),
               ps_accessibility = percent (category_score j ''accessibility'')\<rparr>,
            data_metrics =
              \<lparr>lcpMs = numericValue j ''largest-contentful-paint'',
               cls = numericValue j ''cumulative-layout-shift'',
               inpMs = numericValue j ''interaction-to-next-paint''\<rparr>\<rparr>"
  using assms by (simp add: runPageSpeed_def Let_def)

lemma sample_requests:
  "fst (runPageSpeed (sample_env pg ps) ''https://example.com/'' ''mobile'') = [sample_request (Some ''secret'')]"
  by (simp add: runPageSpeed_def sample_env_def sample_request_def orEmpty_def Let_def)

lemma sample_scores_seo_only:
  "scores (analyzeFetched (sample_env sample_page psi_seo_only) ''example.com'' sample_fetched)
     = \<lparr>total = 44, performance = Some 0, seo = 50, ux = 92, trust = 44\<rparr>"
  by code_simp

text \<open>
  Claim C10. When the PageSpeed request of the library's client is answered with a
  successful status and a JSON body, the client returns all four category scores as
  integers: the rounded percentage of the score in the body, and 0 for a category that the
  body lacks. So when the body lacks the performance category, the report of
  \<^verbatim>\<open>analyzeSite\<close> has the performance score 0, not an absent one, and its total is the
  four-term formula with that 0, not the three-term formula.
\<close>

theorem absent_category_is_zero:
  "fst (runPageSpeed e u strategy) = [rq] \<Longrightarrow>
   fetchPsi e rq = PsiResponse st (Inr j) \<Longrightarrow>
   http_ok st \<Longrightarrow>
     (\<exists>d. snd (runPageSpeed e u strategy) = Inr d
        \<and> ps_performance (data_scores d)
            = (case category_score j ''performance'' of None \<Rightarrow> 0 | Some x \<Rightarrow> js_round (fmul (fl x) 100))
        \<and> ps_seo (data_scores d)
            = (case category_score j ''seo'' of None \<Rightarrow> 0 | Some x \<Rightarrow> js_round (fmul (fl x) 100))
        \<and> ps_bestPractices (data_scores d)
            = (case category_score j ''best-practices'' of None \<Rightarrow> 0 | Some x \<Rightarrow> js_round (fmul (fl x) 100))
        \<and> ps_accessibility (data_scores d)
            = (case category_score j ''accessibility'' of None \<Rightarrow> 0 | Some x \<Rightarrow> js_round (fmul (fl x) 100)))
     \<and> (analyzeSite e inputUrl = Inr r \<and> u = finalUrl r \<and> strategy = ''mobile''
          \<and> category_score j ''performance'' = None \<longrightarrow>
        performance (scores r) = Some 0
        \<and> total (scores r)
            = js_round (weighted4 0.35 0 0.3 (ux (scores r)) 0.2 (seo (scores r)) 0.15
                          (trust (scores r))))"
proof (intro conjI impI)
  assume a: "fst (runPageSpeed e u strategy) = [rq]" and b: "fetchPsi e rq = PsiResponse st (Inr j)"
    and c: "http_ok st"
  note ok = runPageSpeed_ok [OF a b c]
  show "\<exists>d. snd (runPageSpeed e u strategy) = Inr d
        \<and> ps_performance (data_scores d)
            = (case category_score j ''performance'' of None \<Rightarrow> 0 | Some x \<Rightarrow> js_round (fmul (fl x) 100))
        \<and> ps_seo (data_scores d)
            = (case category_score j ''seo'' of None \<Rightarrow> 0 | Some x \<Rightarrow> js_round (fmul (fl x) 100))
        \<and> ps_bestPractices (data_scores d)
            = (case category_score j ''best-practices'' of None \<Rightarrow> 0 | Some x \<Rightarrow> js_round (fmul (fl x) 100))
        \<and> ps_accessibility (data_scores d)
            = (case category_score j ''accessibility'' of None \<Rightarrow> 0 | Some x \<Rightarrow> js_round (fmul (fl x) 100))"
    by (simp add: ok percent_None percent_Some split: option.split)
  assume h: "analyzeSite e inputUrl = Inr r \<and> u = finalUrl r \<and> strategy = ''mobile''
          \<and> category_score j ''performance'' = None"
  then have "analyzeSite e inputUrl = Inr r" by simp
  from analyzeSite_Inr [OF this] obtain page where r: "r = analyzeFetched e inputUrl page" by blast
  from h have u: "u = fetched_url page" and s: "strategy = ''mobile''"
    and n: "category_score j ''performance'' = None"
    by (simp_all add: r finalUrl_analyzeFetched)
  have p: "psiOf e page = PsiData \<lparr>data_scores =
              \<lparr>ps_performance = 0,
               ps_seo = percent (category_score j ''seo''),
               ps_bestPractices = percent (category_score j ''best-practices''),
               ps_accessibility = percent (category_score j ''accessibility'')\<rparr>,
            data_metrics =
              \<lparr>lcpMs = numericValue j ''largest-contentful-paint'',
               cls = numericValue j ''cumulative-layout-shift'',
               inpMs = numericValue j ''interaction-to-next-paint''\<rparr>\<rparr>"
    using ok by (simp add: psiOf_def u s n percent_None)
  show "performance (scores r) = Some 0"
    by (simp add: r scores_analyzeFetched p Let_def)
  show "total (scores r)
            = js_round (weighted4 0.35 0 0.3 (ux (scores r)) 0.2 (seo (scores r)) 0.15
                          (trust (scores r)))"
    by (simp add: r scores_analyzeFetched p Let_def)
qed

theorem absent_category_is_zero_witness:
  "fst (runPageSpeed (sample_env sample_page psi_seo_only) ''https://example.com/'' ''mobile'')
     = [sample_request (Some ''secret'')]
   \<and> fetchPsi (sample_env sample_page psi_seo_only) (sample_request (Some ''secret''))
     = PsiResponse 200 (Inr (sample_json [''seo'' \<mapsto> 0.5]))
   \<and> http_ok 200
   \<and> category_score (sample_json [''seo'' \<mapsto> 0.5]) ''performance'' = None
   \<and> analyzeSite (sample_env sample_page psi_seo_only) ''example.com''
     = Inr (analyzeFetched (sample_env sample_page psi_seo_only) ''example.com'' sample_fetched)
   \<and> performance (scores
        (analyzeFetched (sample_env sample_page psi_seo_only) ''example.com'' sample_fetched))
     = Some 0
   \<and> total (scores
        (analyzeFetched (sample_env sample_page psi_seo_only) ''example.com'' sample_fetched))
     = 44"
proof -
  have 1: "fst (runPageSpeed (sample_env sample_page psi_seo_only) ''https://example.com/'' ''mobile'')
     = [sample_request (Some ''secret'')]" by (rule sample_requests)
  have 2: "fetchPsi (sample_env sample_page psi_seo_only) (sample_request (Some ''secret''))
     = PsiResponse 200 (Inr (sample_json [''seo'' \<mapsto> 0.5]))"
    by (simp add: sample_env_def psi_seo_only_def)
  have 3: "http_ok 200" by (simp add: http_ok_def)
  have 4: "category_score (sample_json [''seo'' \<mapsto> 0.5]) ''performance'' = None"
    by (simp add: sample_json_def)
  have 5: "''https://example.com/''
     = finalUrl (analyzeFetched (sample_env sample_page psi_seo_only) ''example.com'' sample_fetched)"
    by (simp add: finalUrl_analyzeFetched sample_fetched_def)
  from absent_category_is_zero [OF 1 2 3,
      of "''example.com''"
         "analyzeFetched (sample_env sample_page psi_seo_only) ''example.com'' sample_fetched"]
    sample_run [of psi_seo_only] 4 5
  have 6: "performance (scores
        (analyzeFetched (sample_env sample_page psi_seo_only) ''example.com'' sample_fetched))
     = Some 0" by blast
  from 1 2 3 4 6 sample_run [of psi_seo_only] sample_scores_seo_only show ?thesis by simp
qed

subsection \<open>URL normalisation\<close>

lemma toLowerCase_https: "toLowerCase (''https://'' @ raw) = ''https://'' @ toLowerCase raw"
  by (simp add: toLowerCase_def toLowerChar_def)

lemma hasHttpScheme_withProto: "hasHttpScheme (withProto raw)"
proof (cases "hasHttpScheme raw")
  case True
  then show ?thesis by (simp add: withProto_def)
next
  case False
  have "hasHttpScheme (''https://'' @ raw)"
    unfolding hasHttpScheme_def toLowerCase_https by simp
  with False show ?thesis by (simp add: withProto_def)
qed

lemma normalizeUrl_Inr:
  "normalizeUrl parse x = Inr y \<Longrightarrow>
     x \<noteq> [] \<and> (\<exists>u. parse (withProto (trim x)) = Some u
        \<and> toLowerCase (hostname u) \<notin> set [''localhost'', ''127.0.0.1'', ''0.0.0.0'']
        \<and> y = href u)"
  by (auto simp: normalizeUrl_def Let_def split: if_splits option.splits)

lemma sample_withProto: "withProto (trim ''LOCALHOST/admin?x=1'') = ''https://LOCALHOST/admin?x=1''"
  by code_simp

lemma sample_localhost:
  "sample_newURL ''https://LOCALHOST/admin?x=1''
     = Some \<lparr>hostname = ''localhost'', href = ''https://localhost/admin?x=1''\<rparr>"
  by (simp add: sample_newURL_def)

lemma sample_roundTrip: "urlRoundTrip sample_newURL"
proof -
  have a: "trim ''https://example.com/'' = ''https://example.com/''" by code_simp
  have b: "trim ''https://localhost/admin?x=1'' = ''https://localhost/admin?x=1''" by code_simp
  have c: "hasHttpScheme ''https://example.com/''" by code_simp
  have d: "hasHttpScheme ''https://localhost/admin?x=1''" by code_simp
  show ?thesis
    unfolding urlRoundTrip_def
  proof (intro allI impI)
    fix s u assume "hasHttpScheme s \<and> sample_newURL s = Some u"
    then have "u = \<lparr>hostname = ''example.com'', href = ''https://example.com/''\<rparr>
        \<or> u = \<lparr>hostname = ''localhost'', href = ''https://localhost/admin?x=1''\<rparr>"
      by (auto simp: sample_newURL_def split: if_splits)
    then show "href u \<noteq> [] \<and> trim (href u) = href u \<and> hasHttpScheme (href u)
        \<and> sample_newURL (href u) = Some u"
      using a b c d by (auto simp: sample_newURL_def)
  qed
qed

lemma sample_not_schemed: "\<not> hasHttpScheme (trim ''example.com'')"
  by code_simp

lemma sample_trim: "trim ''example.com'' = ''example.com''"
  by code_simp

text \<open>
  Claim C8. Whenever the URL that is parsed from the input has one of the host names
  \<^verbatim>\<open>localhost\<close>, \<^verbatim>\<open>127.0.0.1\<close> and \<^verbatim>\<open>0.0.0.0\<close>, whatever else the input holds, normalisation
  fails with the error "host not allowed" and \<^verbatim>\<open>analyzeSite\<close> fails with the same error, so
  that there is no report. (An empty input never reaches the parser: it fails the schema
  check, again without a report.)
\<close>

theorem disallowed_host_rejected:
  "newURL e (withProto (trim inp)) = Some u \<Longrightarrow>
   toLowerCase (hostname u) \<in> set [''localhost'', ''127.0.0.1'', ''0.0.0.0''] \<Longrightarrow>
     (inp \<noteq> [] \<longrightarrow> normalizeUrl (newURL e) inp = Inl HostNotAllowed
                        \<and> analyzeSite e inp = Inl HostNotAllowed)
     \<and> (inp = [] \<longrightarrow> normalizeUrl (newURL e) inp = Inl ZodError
                        \<and> analyzeSite e inp = Inl ZodError)"
  by (auto simp: normalizeUrl_def analyzeSite_def Let_def)

theorem disallowed_host_rejected_witness:
  "newURL (sample_env sample_page psi_up) (withProto (trim ''LOCALHOST/admin?x=1''))
     = Some \<lparr>hostname = ''localhost'', href = ''https://localhost/admin?x=1''\<rparr>
   \<and> toLowerCase ''localhost'' \<in> set [''localhost'', ''127.0.0.1'', ''0.0.0.0'']
   \<and> normalizeUrl (newURL (sample_env sample_page psi_up)) ''LOCALHOST/admin?x=1''
     = Inl HostNotAllowed
   \<and> analyzeSite (sample_env sample_page psi_up) ''LOCALHOST/admin?x=1'' = Inl HostNotAllowed"
proof -
  have 1: "newURL (sample_env sample_page psi_up) (withProto (trim ''LOCALHOST/admin?x=1''))
     = Some \<lparr>hostname = ''localhost'', href = ''https://localhost/admin?x=1''\<rparr>"
    by (simp add: sample_env_def sample_withProto sample_localhost)
  have 2: "toLowerCase (hostname \<lparr>hostname = ''localhost'', href = ''https://localhost/admin?x=1''\<rparr>)
     \<in> set [''localhost'', ''127.0.0.1'', ''0.0.0.0'']"
    by (simp add: toLowerCase_def toLowerChar_def)
  from disallowed_host_rejected [OF 1 2] 1 2 show ?thesis by simp
qed

text \<open>
  Claim C9. When the trimmed input does not start with \<^verbatim>\<open>http://\<close> or \<^verbatim>\<open>https://\<close> (in any
  letter case), the string that is parsed is \<^verbatim>\<open>https://\<close> followed by the trimmed input;
  when it does, the trimmed input is parsed as it is. And normalisation is idempotent:
  when it succeeds on an input with the result \<open>y\<close>, it succeeds on \<open>y\<close> with the result
  \<open>y\<close>, provided the URL parser of the runtime parses its own serialisations back.
\<close>

theorem normalize_prepends_and_idempotent:
  "(inp \<noteq> [] \<and> \<not> hasHttpScheme (trim inp) \<longrightarrow>
      withProto (trim inp) = ''https://'' @ trim inp
      \<and> normalizeUrl parse inp
        = (case parse (''https://'' @ trim inp) of
             None \<Rightarrow> Inl InvalidUrl
           | Some u \<Rightarrow>
               if toLowerCase (hostname u) \<in> set [''localhost'', ''127.0.0.1'', ''0.0.0.0'']
               then Inl HostNotAllowed else Inr (href u)))
   \<and> (inp \<noteq> [] \<and> hasHttpScheme (trim inp) \<longrightarrow>
      withProto (trim inp) = trim inp
      \<and> normalizeUrl parse inp
        = (case parse (trim inp) of
             None \<Rightarrow> Inl InvalidUrl
           | Some u \<Rightarrow>
               if toLowerCase (hostname u) \<in> set [''localhost'', ''127.0.0.1'', ''0.0.0.0'']
               then Inl HostNotAllowed else Inr (href u)))
   \<and> (urlRoundTrip parse \<and> normalizeUrl parse x = Inr y \<longrightarrow> normalizeUrl parse y = Inr y)"
proof (intro conjI impI)
  assume "inp \<noteq> [] \<and> \<not> hasHttpScheme (trim inp)"
  then show "withProto (trim inp) = ''https://'' @ trim inp"
    and "normalizeUrl parse inp
        = (case parse (''https://'' @ trim inp) of
             None \<Rightarrow> Inl InvalidUrl
           | Some u \<Rightarrow>
               if toLowerCase (hostname u) \<in> set [''localhost'', ''127.0.0.1'', ''0.0.0.0'']
               then Inl HostNotAllowed else Inr (href u))"
    by (simp_all add: normalizeUrl_def withProto_def Let_def split: option.split)
next
  assume "inp \<noteq> [] \<and> hasHttpScheme (trim inp)"
  then show "withProto (trim inp) = trim inp"
    and "normalizeUrl parse inp
        = (case parse (trim inp) of
             None \<Rightarrow> Inl InvalidUrl
           | Some u \<Rightarrow>
               if toLowerCase (hostname u) \<in> set [''localhost'', ''127.0.0.1'', ''0.0.0.0'']
               then Inl HostNotAllowed else Inr (href u))"
    by (simp_all add: normalizeUrl_def withProto_def Let_def split: option.split)
next
  assume h: "urlRoundTrip parse \<and> normalizeUrl parse x = Inr y"
  then have "normalizeUrl parse x = Inr y" by simp
  from normalizeUrl_Inr [OF this] obtain u where
    p: "parse (withProto (trim x)) = Some u"
    and ok: "toLowerCase (hostname u) \<notin> set [''localhost'', ''127.0.0.1'', ''0.0.0.0'']"
    and y: "y = href u" by blast
  from h p hasHttpScheme_withProto [of "trim x"]
  have rt: "href u \<noteq> [] \<and> trim (href u) = href u \<and> hasHttpScheme (href u) \<and> parse (href u) = Some u"
    unfolding urlRoundTrip_def by blast
  then show "normalizeUrl parse y = Inr y"
    using ok by (simp add: normalizeUrl_def withProto_def y Let_def)
qed

theorem normalize_prepends_and_idempotent_witness:
  "\<not> hasHttpScheme (trim ''example.com'')
   \<and> withProto (trim ''example.com'') = ''https://example.com''
   \<and> urlRoundTrip sample_newURL
   \<and> normalizeUrl sample_newURL ''example.com'' = Inr ''https://example.com/''
   \<and> normalizeUrl sample_newURL ''https://example.com/'' = Inr ''https://example.com/''"
proof -
  note t = normalize_prepends_and_idempotent
    [of "''example.com''" sample_newURL "''example.com''" "''https://example.com/''"]
  from t sample_not_schemed have 1: "withProto (trim ''example.com'') = ''https://'' @ trim ''example.com''"
    by simp
  from t sample_roundTrip sample_normalize
  have 2: "normalizeUrl sample_newURL ''https://example.com/'' = Inr ''https://example.com/''"
    by blast
  from 1 2 sample_not_schemed sample_roundTrip sample_normalize sample_trim show ?thesis by simp
qed

subsection \<open>The keyless retry\<close>

lemma rt_input_POST_report: "rt_input (POST_report e i) = i"
proof -
  obtain h st fu where ret: "retrieve (rt_fetchPage e) i = (h, st, fu)"
    by (metis prod_cases3)
  show ?thesis by (simp add: POST_report_def ret Let_def)
qed

lemma rt_pagespeed_POST_report:
  "rp_error (rt_pagespeed (POST_report e i))
     = (case psRoute e i of AttemptOk j \<Rightarrow> None
        | AttemptFailed m _ \<Rightarrow> (if m \<noteq> [] then Some m else None))
   \<and> rp_scores (rt_pagespeed (POST_report e i))
     = (case psRoute e i of
          AttemptOk j \<Rightarrow> \<lparr>rps_performance = score_route j ''performance'',
                           rps_seo = score_route j ''seo'',
                           rps_bestPractices = score_route j ''best-practices'',
                           rps_accessibility = score_route j ''accessibility''\<rparr>
        | AttemptFailed _ _ \<Rightarrow> \<lparr>rps_performance = None, rps_seo = None,
                                  rps_bestPractices = None, rps_accessibility = None\<rparr>)"
proof -
  obtain h st fu where ret: "retrieve (rt_fetchPage e) i = (h, st, fu)"
    by (metis prod_cases3)
  show ?thesis
    by (cases "psRoute e i")
       (simp_all add: POST_report_def psRoute_def ret Let_def attemptError_def truthy_def)
qed

lemma attempt_request:
  "fst (attempt fetch u k)
     = \<lparr>rq_url = u, rq_strategy = ''mobile'',
        rq_categories = [''performance'', ''accessibility'', ''best-practices'', ''seo''],
        rq_key = (if truthy k then k else None)\<rparr>"
  by (simp add: attempt_def Let_def)

lemma runPageSpeed_route_cases:
  "runPageSpeed_route fetch u k =
     (if \<not> attemptOk (snd (attempt fetch u k)) \<and> truthy k
          \<and> authFailure (orEmpty (attemptError (snd (attempt fetch u k))))
      then ([fst (attempt fetch u k), fst (attempt fetch u None)],
            if attemptOk (snd (attempt fetch u None)) then snd (attempt fetch u None)
            else snd (attempt fetch u k))
      else ([fst (attempt fetch u k)], snd (attempt fetch u k)))"
  by (simp add: runPageSpeed_route_def Let_def split: prod.split)

lemma bad_key_message: "authFailure ''API key not valid. Please pass a valid API key.''"
  by code_simp

lemma bad_key_first:
  "snd (attempt psi_bad_key u (Some ''secret''))
     = AttemptFailed ''API key not valid. Please pass a valid API key.'' (Some bad_key_json)"
  by (simp add: attempt_def psi_bad_key_def truthy_def http_ok_def bad_key_json_def orEmpty_def
      Let_def)

lemma bad_key_second: "snd (attempt psi_bad_key u None) = AttemptOk up_json"
  by (simp add: attempt_def psi_bad_key_def psi_up_def truthy_def http_ok_def Let_def)

lemma route_retrieve_down: "retrieve (rt_fetchPage (route_world page_down ps)) i = ([], None, i)"
  by (simp add: retrieve_def route_world_def page_down_def)

lemma route_psRoute_down:
  "psRoute (route_world page_down ps) ''https://example.com''
     = snd (runPageSpeed_route ps ''https://example.com'' (Some ''secret''))"
  by (simp add: psRoute_def route_retrieve_down Let_def) (simp add: route_world_def)

lemma up_json_performance: "score_route up_json ''performance'' = Some 90"
  by code_simp

lemma lib_bad_key_run:
  "runPageSpeed (sample_env sample_page psi_bad_key) ''https://example.com/'' ''mobile''
     = ([sample_request (Some ''secret'')], Inl (PsiStatus 400))"
  by (simp add: runPageSpeed_def sample_env_def sample_request_def psi_bad_key_def orEmpty_def
      http_ok_def Let_def)

lemma lib_bad_key_report:
  "pagespeed (analyzeFetched (sample_env sample_page psi_bad_key) ''example.com'' sample_fetched)
     = PsiError ''PageSpeed API error (400)''"
  by code_simp

text \<open>
  Claim C2, as stated for every PageSpeed invocation, fails on the client of the library:
  with a key configured and an API that answers the request carrying the key with status
  400 and the message "API key not valid. Please pass a valid API key." (and would serve the
  request without a key), \<^verbatim>\<open>runPageSpeed\<close> sends that one request and throws; there is no
  second request, and the report of \<^verbatim>\<open>analyzeSite\<close> carries the error.
\<close>

theorem keyless_retry_policy_counterexample:
  "PAGESPEED_API_KEY (sample_env sample_page psi_bad_key) = Some ''secret''
   \<and> fetchPsi (sample_env sample_page psi_bad_key) (sample_request (Some ''secret''))
     = PsiResponse 400 (Inr bad_key_json)
   \<and> api_error_message bad_key_json = Some ''API key not valid. Please pass a valid API key.''
   \<and> authFailure ''API key not valid. Please pass a valid API key.''
   \<and> fetchPsi (sample_env sample_page psi_bad_key) (sample_request None)
     = PsiResponse 200 (Inr up_json)
   \<and> runPageSpeed (sample_env sample_page psi_bad_key) ''https://example.com/'' ''mobile''
     = ([sample_request (Some ''secret'')], Inl (PsiStatus 400))
   \<and> analyzeSite (sample_env sample_page psi_bad_key) ''example.com''
     = Inr (analyzeFetched (sample_env sample_page psi_bad_key) ''example.com'' sample_fetched)
   \<and> pagespeed (analyzeFetched (sample_env sample_page psi_bad_key) ''example.com'' sample_fetched)
     = PsiError ''PageSpeed API error (400)''"
proof -
  have 1: "PAGESPEED_API_KEY (sample_env sample_page psi_bad_key) = Some ''secret''"
    by (simp add: sample_env_def)
  have 2: "fetchPsi (sample_env sample_page psi_bad_key) (sample_request (Some ''secret''))
     = PsiResponse 400 (Inr bad_key_json)"
    by (simp add: sample_env_def psi_bad_key_def sample_request_def)
  have 3: "api_error_message bad_key_json = Some ''API key not valid. Please pass a valid API key.''"
    by (simp add: bad_key_json_def)
  have 4: "fetchPsi (sample_env sample_page psi_bad_key) (sample_request None)
     = PsiResponse 200 (Inr up_json)"
    by (simp add: sample_env_def psi_bad_key_def sample_request_def psi_up_def)
  from 1 2 3 4 bad_key_message lib_bad_key_run sample_run [of psi_bad_key] lib_bad_key_report
  show ?thesis by simp
qed

text \<open>
  Claim C2, amended. For \<^verbatim>\<open>runPageSpeed\<close> of \<^verbatim>\<open>route.ts\<close>: when the first attempt fails with a
  message that matches the authentication pattern and the key is a non-empty string, exactly
  two requests are sent, the first with the key and the second with the same parameters and
  no key, and the result is that of the second attempt if it succeeded and the failure of the
  first otherwise; after any other failure, or a success, of the first attempt exactly one
  request is sent and its outcome is the result. When the result is a success, the report of
  the handler has no error in its \<^verbatim>\<open>pagespeed\<close> part and the scores of that response. The
  client of the library always sends exactly one request.
\<close>

theorem keyless_retry_policy:
  "(snd (attempt fetch u k) = AttemptFailed msg jo \<and> authFailure msg \<and> truthy k \<longrightarrow>
      fst (runPageSpeed_route fetch u k)
        = [\<lparr>rq_url = u, rq_strategy = ''mobile'',
            rq_categories = [''performance'', ''accessibility'', ''best-practices'', ''seo''],
            rq_key = k\<rparr>,
           \<lparr>rq_url = u, rq_strategy = ''mobile'',
            rq_categories = [''performance'', ''accessibility'', ''best-practices'', ''seo''],
            rq_key = None\<rparr>]
      \<and> snd (runPageSpeed_route fetch u k)
        = (case snd (attempt fetch u None) of
             AttemptOk j \<Rightarrow> AttemptOk j
           | AttemptFailed m2 j2 \<Rightarrow> AttemptFailed msg jo))
   \<and> (snd (attempt fetch u k) = AttemptFailed msg jo \<and> \<not> (authFailure msg \<and> truthy k) \<longrightarrow>
      fst (runPageSpeed_route fetch u k) = [fst (attempt fetch u k)]
      \<and> snd (runPageSpeed_route fetch u k) = AttemptFailed msg jo)
   \<and> (snd (attempt fetch u k) = AttemptOk j1 \<longrightarrow>
      fst (runPageSpeed_route fetch u k) = [fst (attempt fetch u k)]
      \<and> snd (runPageSpeed_route fetch u k) = AttemptOk j1)
   \<and> (POST w req = ReportReply rr \<and> psRoute w (rt_input rr) = AttemptOk j \<longrightarrow>
      rp_error (rt_pagespeed rr) = None
      \<and> rp_scores (rt_pagespeed rr)
        = \<lparr>rps_performance = score_route j ''performance'', rps_seo = score_route j ''seo'',
           rps_bestPractices = score_route j ''best-practices'',
           rps_accessibility = score_route j ''accessibility''\<rparr>)
   \<and> (\<exists>rq. fst (runPageSpeed e v strategy) = [rq])"
proof (intro conjI impI)
  assume h: "snd (attempt fetch u k) = AttemptFailed msg jo \<and> authFailure msg \<and> truthy k"
  then have h1: "snd (attempt fetch u k) = AttemptFailed msg jo" and tk: "truthy k" by simp_all
  from h have c: "(\<not> attemptOk (snd (attempt fetch u k)) \<and> truthy k
          \<and> authFailure (orEmpty (attemptError (snd (attempt fetch u k))))) = True"
    by (simp add: attemptOk_def attemptError_def orEmpty_def)
  have r1: "fst (attempt fetch u k)
      = \<lparr>rq_url = u, rq_strategy = ''mobile'',
         rq_categories = [''performance'', ''accessibility'', ''best-practices'', ''seo''],
         rq_key = k\<rparr>"
    using tk by (simp add: attempt_request)
  have r2: "fst (attempt fetch u None)
      = \<lparr>rq_url = u, rq_strategy = ''mobile'',
         rq_categories = [''performance'', ''accessibility'', ''best-practices'', ''seo''],
         rq_key = None\<rparr>"
    by (simp add: attempt_request)
  show "fst (runPageSpeed_route fetch u k)
        = [\<lparr>rq_url = u, rq_strategy = ''mobile'',
            rq_categories = [''performance'', ''accessibility'', ''best-practices'', ''seo''],
            rq_key = k\<rparr>,
           \<lparr>rq_url = u, rq_strategy = ''mobile'',
            rq_categories = [''performance'', ''accessibility'', ''best-practices'', ''seo''],
            rq_key = None\<rparr>]"
    by (subst runPageSpeed_route_cases) (simp only: c if_True fst_conv r1 r2)
  have "snd (runPageSpeed_route fetch u k)
      = (if attemptOk (snd (attempt fetch u None)) then snd (attempt fetch u None)
         else AttemptFailed msg jo)"
    by (subst runPageSpeed_route_cases, simp only: c if_True snd_conv, simp only: h1)
  then show "snd (runPageSpeed_route fetch u k)
        = (case snd (attempt fetch u None) of
             AttemptOk j \<Rightarrow> AttemptOk j
           | AttemptFailed m2 j2 \<Rightarrow> AttemptFailed msg jo)"
    by (simp add: attemptOk_def split: attempt_result.split)
next
  assume h: "snd (attempt fetch u k) = AttemptFailed msg jo \<and> \<not> (authFailure msg \<and> truthy k)"
  then have h1: "snd (attempt fetch u k) = AttemptFailed msg jo" by simp
  from h have c: "(\<not> attemptOk (snd (attempt fetch u k)) \<and> truthy k
          \<and> authFailure (orEmpty (attemptError (snd (attempt fetch u k))))) = False"
    by (auto simp: attemptOk_def attemptError_def orEmpty_def)
  show "fst (runPageSpeed_route fetch u k) = [fst (attempt fetch u k)]"
    by (subst runPageSpeed_route_cases) (simp only: c if_False fst_conv)
  show "snd (runPageSpeed_route fetch u k) = AttemptFailed msg jo"
    by (subst runPageSpeed_route_cases, simp only: c if_False snd_conv, simp only: h1)
next
  assume h: "snd (attempt fetch u k) = AttemptOk j1"
  then have c: "(\<not> attemptOk (snd (attempt fetch u k)) \<and> truthy k
          \<and> authFailure (orEmpty (attemptError (snd (attempt fetch u k))))) = False"
    by (simp add: attemptOk_def)
  show "fst (runPageSpeed_route fetch u k) = [fst (attempt fetch u k)]"
    by (subst runPageSpeed_route_cases) (simp only: c if_False fst_conv)
  show "snd (runPageSpeed_route fetch u k) = AttemptOk j1"
    by (subst runPageSpeed_route_cases, simp only: c if_False snd_conv, simp only: h)
next
  assume h: "POST w req = ReportReply rr \<and> psRoute w (rt_input rr) = AttemptOk j"
  then have "POST w req = ReportReply rr" by simp
  from POST_ReportReply [OF this] obtain i where rr: "rr = POST_report w i" by blast
  from h have p: "psRoute w i = AttemptOk j" by (simp add: rr rt_input_POST_report)
  show "rp_error (rt_pagespeed rr) = None"
    using rt_pagespeed_POST_report [of w i] by (simp add: rr p)
  show "rp_scores (rt_pagespeed rr)
        = \<lparr>rps_performance = score_route j ''performance'', rps_seo = score_route j ''seo'',
           rps_bestPractices = score_route j ''best-practices'',
           rps_accessibility = score_route j ''accessibility''\<rparr>"
    using rt_pagespeed_POST_report [of w i] by (simp add: rr p)
next
  show "\<exists>rq. fst (runPageSpeed e v strategy) = [rq]"
    by (simp add: runPageSpeed_def Let_def)
qed

theorem keyless_retry_policy_witness:
  "snd (attempt psi_bad_key ''https://example.com'' (Some ''secret''))
     = AttemptFailed ''API key not valid. Please pass a valid API key.'' (Some bad_key_json)
   \<and> authFailure ''API key not valid. Please pass a valid API key.''
   \<and> truthy (Some ''secret'')
   \<and> fst (runPageSpeed_route psi_bad_key ''https://example.com'' (Some ''secret''))
        = [\<lparr>rq_url = ''https://example.com'', rq_strategy = ''mobile'',
            rq_categories = [''performance'', ''accessibility'', ''best-practices'', ''seo''],
            rq_key = Some ''secret''\<rparr>,
           \<lparr>rq_url = ''https://example.com'', rq_strategy = ''mobile'',
            rq_categories = [''performance'', ''accessibility'', ''best-practices'', ''seo''],
            rq_key = None\<rparr>]
   \<and> snd (runPageSpeed_route psi_bad_key ''https://example.com'' (Some ''secret''))
        = AttemptOk up_json
   \<and> POST (route_world page_down psi_bad_key) (Body (Some ''example.com'') None)
        = ReportReply (POST_report (route_world page_down psi_bad_key) ''https://example.com'')
   \<and> rp_error (rt_pagespeed
        (POST_report (route_world page_down psi_bad_key) ''https://example.com'')) = None
   \<and> rps_performance (rp_scores (rt_pagespeed
        (POST_report (route_world page_down psi_bad_key) ''https://example.com''))) = Some 90"
proof -
  note t = keyless_retry_policy
    [of psi_bad_key "''https://example.com''" "Some ''secret''"
        "''API key not valid. Please pass a valid API key.''" "Some bad_key_json" up_json
        "route_world page_down psi_bad_key" "Body (Some ''example.com'') None"
        "POST_report (route_world page_down psi_bad_key) ''https://example.com''" up_json]
  note f = bad_key_first [of "''https://example.com''"]
  have k: "truthy (Some ''secret'')" by (simp add: truthy_def)
  from t f bad_key_message k
  have 1: "fst (runPageSpeed_route psi_bad_key ''https://example.com'' (Some ''secret''))
        = [\<lparr>rq_url = ''https://example.com'', rq_strategy = ''mobile'',
            rq_categories = [''performance'', ''accessibility'', ''best-practices'', ''seo''],
            rq_key = Some ''secret''\<rparr>,
           \<lparr>rq_url = ''https://example.com'', rq_strategy = ''mobile'',
            rq_categories = [''performance'', ''accessibility'', ''best-practices'', ''seo''],
            rq_key = None\<rparr>]"
    and 2: "snd (runPageSpeed_route psi_bad_key ''https://example.com'' (Some ''secret''))
        = (case snd (attempt psi_bad_key ''https://example.com'' None) of
             AttemptOk j \<Rightarrow> AttemptOk j
           | AttemptFailed m2 j2 \<Rightarrow>
               AttemptFailed ''API key not valid. Please pass a valid API key.''
                 (Some bad_key_json))"
    by blast+
  from 2 have 3: "snd (runPageSpeed_route psi_bad_key ''https://example.com'' (Some ''secret''))
        = AttemptOk up_json"
    by (simp add: bad_key_second)
  note r = route_run [of "route_world page_down psi_bad_key"]
  have p: "psRoute (route_world page_down psi_bad_key)
       (rt_input (POST_report (route_world page_down psi_bad_key) ''https://example.com''))
     = AttemptOk up_json"
    by (simp add: rt_input_POST_report route_psRoute_down 3)
  from t r p
  have 4: "rp_error (rt_pagespeed
        (POST_report (route_world page_down psi_bad_key) ''https://example.com'')) = None
     \<and> rp_scores (rt_pagespeed
        (POST_report (route_world page_down psi_bad_key) ''https://example.com''))
        = \<lparr>rps_performance = score_route up_json ''performance'',
           rps_seo = score_route up_json ''seo'',
           rps_bestPractices = score_route up_json ''best-practices'',
           rps_accessibility = score_route up_json ''accessibility''\<rparr>"
    by blast
  from f bad_key_message k 1 3 r 4 up_json_performance show ?thesis by simp
qed

subsection \<open>Failure to retrieve the page\<close>

lemma retrieve_failed:
  assumes "fetch i = PageThrows x \<or> (\<exists>res. fetch i = PageResponse res \<and> res_text res = Inl x)"
  shows "\<exists>st. retrieve fetch i = ([], st, i)"
  using assms by (auto simp: retrieve_def)

lemma trustOf_empty:
  "trustOf [] = \<lparr>contact = False, shipping = False, returns = False, privacy = False,
                  terms = False, faq = False\<rparr>"
  by (simp add: trustOf_def toLowerCase_def Let_def)

lemma hasCTA_empty: "hasCTA [] = False"
  by (simp add: hasCTA_def classButtonTest_def toLowerCase_def Let_def)

lemma seoOf_empty:
  "seoOf sc [] = \<lparr>title = [], metaDesc = [], h1Text = [], canonical = [], robots = [],
                   openGraph = \<lparr>ogTitle = [], ogDesc = [], ogImage = []\<rparr>\<rparr>"
  by (simp add: seoOf_def)

lemma issues_route_empty:
  "map (\<lambda>i. (key i, severity i))
     (issues_route
        \<lparr>contact = False, shipping = False, returns = False, privacy = False,
           terms = False, faq = False\<rparr>
        \<lparr>title = [], metaDesc = [], h1Text = [], canonical = [], robots = [],
           openGraph = \<lparr>ogTitle = [], ogDesc = [], ogImage = []\<rparr>\<rparr>
        0 False)
     = [(''trust.shipping.missing'', High), (''seo.canonical.missing'', Low),
        (''ux.cta.unclear'', Medium)]"
  by (simp add: issues_route_def trim_def Let_def)

lemma POST_report_degraded:
  assumes ret: "retrieve (rt_fetchPage w) i = ([], st, i)"
  shows "rt_platform (POST_report w i) = ''Sconosciuta/Custom''
       \<and> rt_httpStatus (POST_report w i) = st
       \<and> rt_seoFindings (POST_report w i)
           = \<lparr>title = [], metaDesc = [], h1Text = [], canonical = [], robots = [],
              openGraph = \<lparr>ogTitle = [], ogDesc = [], ogImage = []\<rparr>\<rparr>
       \<and> rt_trustFindings (POST_report w i)
           = \<lparr>contact = False, shipping = False, returns = False, privacy = False,
              terms = False, faq = False\<rparr>
       \<and> tech_schema (rt_tech (POST_report w i)) = None
       \<and> tech_tracking (rt_tech (POST_report w i)) = None
       \<and> tech_pwa (rt_tech (POST_report w i))
           = \<lparr>available = False, hasManifest = False, hasServiceWorker = False\<rparr>
       \<and> rt_ux (rt_scores (POST_report w i)) = 92
       \<and> map (\<lambda>i. (key i, severity i)) (rt_issues (POST_report w i))
           = [(''trust.shipping.missing'', High), (''seo.canonical.missing'', Low),
              (''ux.cta.unclear'', Medium)]"
  by (simp add: POST_report_def ret Let_def trustOf_empty hasCTA_empty seoOf_empty
      issues_route_empty)

lemma analyzeSite_fetch_failed:
  assumes n: "normalizeUrl (newURL e) inp = Inr u"
    and f: "fetchPage e u = PageThrows x
        \<or> (\<exists>res. fetchPage e u = PageResponse res
              \<and> str_includes (orEmpty (content_type res)) ''text/html'' \<and> res_text res = Inl x)"
  shows "analyzeSite e inp = Inl (Raised x)"
  using f by (auto simp: analyzeSite_def n fetchHtml_def Let_def)

lemma route_normalize: "normalizeUrl_route (inputRaw (Some ''example.com'') None) = Some ''https://example.com''"
  by code_simp

lemma lib_page_down:
  "analyzeSite (sample_env page_down ps) ''example.com''
     = Inl (Raised (Exn ''TypeError'' ''fetch failed''))"
  by (simp add: analyzeSite_def sample_env_def sample_normalize fetchHtml_def page_down_def)

text \<open>
  Claim C3, read as a statement about every analysis, fails on \<^verbatim>\<open>analyzeSite\<close>: when the
  retrieval of the page throws, \<^verbatim>\<open>analyzeSite\<close> throws the same error and there is no
  report.
\<close>

theorem fetch_failure_policy_counterexample:
  "normalizeUrl (newURL (sample_env page_down psi_up)) ''example.com'' = Inr ''https://example.com/''
   \<and> fetchPage (sample_env page_down psi_up) ''https://example.com/''
       = PageThrows (Exn ''TypeError'' ''fetch failed'')
   \<and> analyzeSite (sample_env page_down psi_up) ''example.com''
       = Inl (Raised (Exn ''TypeError'' ''fetch failed''))"
  by (simp add: lib_page_down) (simp add: sample_env_def sample_normalize page_down_def)

text \<open>
  Claim C3, amended. In the handler of \<^verbatim>\<open>route.ts\<close>, when the retrieval of the page (the
  request or the reading of the body) throws, the analysis goes on with empty markup and
  replies with a report: the platform is "Sconosciuta/Custom", all SEO fields are empty,
  all trust flags are false, no structured data or tracking is reported, the PWA flags are
  false and no call to action is found (UX score 92); the issues are the missing shipping
  page, the missing canonical link and the unclear call to action. In \<^verbatim>\<open>analyzeSite\<close> the
  same failure is fatal: the error propagates and no report is produced.
\<close>

theorem fetch_failure_policy:
  "(normalizeUrl_route (inputRaw dmn ur) = Some inputUrl
     \<and> (rt_fetchPage w inputUrl = PageThrows x
         \<or> (\<exists>res. rt_fetchPage w inputUrl = PageResponse res \<and> res_text res = Inl x)) \<longrightarrow>
      fst (retrieve (rt_fetchPage w) inputUrl) = []
      \<and> (\<exists>rr. POST w (Body dmn ur) = ReportReply rr
            \<and> rt_platform rr = ''Sconosciuta/Custom''
            \<and> rt_seoFindings rr
                = \<lparr>title = [], metaDesc = [], h1Text = [], canonical = [], robots = [],
                   openGraph = \<lparr>ogTitle = [], ogDesc = [], ogImage = []\<rparr>\<rparr>
            \<and> rt_trustFindings rr
                = \<lparr>contact = False, shipping = False, returns = False, privacy = False,
                   terms = False, faq = False\<rparr>
            \<and> tech_schema (rt_tech rr) = None
            \<and> tech_tracking (rt_tech rr) = None
            \<and> tech_pwa (rt_tech rr)
                = \<lparr>available = False, hasManifest = False, hasServiceWorker = False\<rparr>
            \<and> rt_ux (rt_scores rr) = 92
            \<and> map (\<lambda>i. (key i, severity i)) (rt_issues rr)
                = [(''trust.shipping.missing'', High), (''seo.canonical.missing'', Low),
                   (''ux.cta.unclear'', Medium)]))
   \<and> (normalizeUrl (newURL e) inp = Inr u
       \<and> (fetchPage e u = PageThrows y
           \<or> (\<exists>res. fetchPage e u = PageResponse res
                 \<and> str_includes (orEmpty (content_type res)) ''text/html''
                 \<and> res_text res = Inl y)) \<longrightarrow>
      analyzeSite e inp = Inl (Raised y))"
proof (intro conjI impI)
  assume h: "normalizeUrl_route (inputRaw dmn ur) = Some inputUrl
     \<and> (rt_fetchPage w inputUrl = PageThrows x
         \<or> (\<exists>res. rt_fetchPage w inputUrl = PageResponse res \<and> res_text res = Inl x))"
  then have "rt_fetchPage w inputUrl = PageThrows x
         \<or> (\<exists>res. rt_fetchPage w inputUrl = PageResponse res \<and> res_text res = Inl x)" by simp
  from retrieve_failed [of "rt_fetchPage w" inputUrl x, OF this] obtain st where
    ret: "retrieve (rt_fetchPage w) inputUrl = ([], st, inputUrl)" by blast
  show "fst (retrieve (rt_fetchPage w) inputUrl) = []" by (simp add: ret)
  from h have p: "POST w (Body dmn ur) = ReportReply (POST_report w inputUrl)"
    by (simp add: POST_def)
  note dg = POST_report_degraded [OF ret]
  show "\<exists>rr. POST w (Body dmn ur) = ReportReply rr
            \<and> rt_platform rr = ''Sconosciuta/Custom''
            \<and> rt_seoFindings rr
                = \<lparr>title = [], metaDesc = [], h1Text = [], canonical = [], robots = [],
                   openGraph = \<lparr>ogTitle = [], ogDesc = [], ogImage = []\<rparr>\<rparr>
            \<and> rt_trustFindings rr
                = \<lparr>contact = False, shipping = False, returns = False, privacy = False,
                   terms = False, faq = False\<rparr>
            \<and> tech_schema (rt_tech rr) = None
            \<and> tech_tracking (rt_tech rr) = None
            \<and> tech_pwa (rt_tech rr)
                = \<lparr>available = False, hasManifest = False, hasServiceWorker = False\<rparr>
            \<and> rt_ux (rt_scores rr) = 92
            \<and> map (\<lambda>i. (key i, severity i)) (rt_issues rr)
                = [(''trust.shipping.missing'', High), (''seo.canonical.missing'', Low),
                   (''ux.cta.unclear'', Medium)]"
    by (rule exI [of _ "POST_report w inputUrl"]) (simp only: p dg simp_thms)
next
  assume h: "normalizeUrl (newURL e) inp = Inr u
       \<and> (fetchPage e u = PageThrows y
           \<or> (\<exists>res. fetchPage e u = PageResponse res
                 \<and> str_includes (orEmpty (content_type res)) ''text/html''
                 \<and> res_text res = Inl y))"
  then show "analyzeSite e inp = Inl (Raised y)"
    using analyzeSite_fetch_failed [of e inp u y] by blast
qed

theorem fetch_failure_policy_witness:
  "normalizeUrl_route (inputRaw (Some ''example.com'') None) = Some ''https://example.com''
   \<and> rt_fetchPage (route_world page_down psi_up) ''https://example.com''
       = PageThrows (Exn ''TypeError'' ''fetch failed'')
   \<and> POST (route_world page_down psi_up) (Body (Some ''example.com'') None)
       = ReportReply (POST_report (route_world page_down psi_up) ''https://example.com'')
   \<and> rt_platform (POST_report (route_world page_down psi_up) ''https://example.com'')
       = ''Sconosciuta/Custom''
   \<and> rt_trustFindings (POST_report (route_world page_down psi_up) ''https://example.com'')
       = \<lparr>contact = False, shipping = False, returns = False, privacy = False,
          terms = False, faq = False\<rparr>
   \<and> normalizeUrl (newURL (sample_env page_down psi_up)) ''example.com''
       = Inr ''https://example.com/''
   \<and> fetchPage (sample_env page_down psi_up) ''https://example.com/''
       = PageThrows (Exn ''TypeError'' ''fetch failed'')
   \<and> analyzeSite (sample_env page_down psi_up) ''example.com''
       = Inl (Raised (Exn ''TypeError'' ''fetch failed''))"
proof -
  note t = fetch_failure_policy
    [of "Some ''example.com''" None "''https://example.com''" "route_world page_down psi_up"
        "Exn ''TypeError'' ''fetch failed''" "sample_env page_down psi_up" "''example.com''"
        "''https://example.com/''" "Exn ''TypeError'' ''fetch failed''"]
  have a: "rt_fetchPage (route_world page_down psi_up) ''https://example.com''
       = PageThrows (Exn ''TypeError'' ''fetch failed'')"
    by (simp add: route_world_def page_down_def)
  have b: "normalizeUrl (newURL (sample_env page_down psi_up)) ''example.com''
       = Inr ''https://example.com/''"
    by (simp add: sample_env_def sample_normalize)
  have c: "fetchPage (sample_env page_down psi_up) ''https://example.com/''
       = PageThrows (Exn ''TypeError'' ''fetch failed'')"
    by (simp add: sample_env_def page_down_def)
  note r = route_run [of "route_world page_down psi_up"]
  note t1 = t [THEN conjunct1, THEN mp, OF conjI [OF route_normalize disjI1 [OF a]],
      THEN conjunct2]
  then obtain rr where rr: "POST (route_world page_down psi_up) (Body (Some ''example.com'') None)
        = ReportReply rr"
    and pl: "rt_platform rr = ''Sconosciuta/Custom''"
    and tf: "rt_trustFindings rr
       = \<lparr>contact = False, shipping = False, returns = False, privacy = False,
          terms = False, faq = False\<rparr>"
    by blast
  from rr r have "rr = POST_report (route_world page_down psi_up) ''https://example.com''"
    by simp
  with pl tf
  have 1: "rt_platform (POST_report (route_world page_down psi_up) ''https://example.com'')
       = ''Sconosciuta/Custom''
   \<and> rt_trustFindings (POST_report (route_world page_down psi_up) ''https://example.com'')
       = \<lparr>contact = False, shipping = False, returns = False, privacy = False,
          terms = False, faq = False\<rparr>"
    by simp
  note 2 = t [THEN conjunct2, THEN mp, OF conjI [OF b disjI1 [OF c]]]
  from route_normalize a r 1 b c 2 show ?thesis by simp
qed

end
